theory Spec2Isabelle
  imports Main
begin

section \<open>Data model (Signer.ts, lines 11-43)\<close>

text \<open>
  Chain ids are JavaScript numbers; they are modelled as integers. The only property of
  numbers the Signer relies on besides equality is truthiness (\<open>x || y\<close>): \<open>0\<close> is falsy.
  Addresses, hashes, session configurations, contract sets and capabilities are opaque to
  the Signer and are modelled as strings.
\<close>

type_synonym Address = string
type_synonym Hash = string

record Chain =
  chain_id :: int
  chain_name :: string

record Session =
  sessionKey :: Hash
  sessionConfig :: string

text \<open>
  The persisted \<open>Account\<close>. The type declares \<open>address: Address\<close>; at run time the field
  can be absent, because \<open>switchChain\<close> spreads \<open>this.account!\<close>, which is \<open>null\<close> while no
  account is connected (\<open>{...null, activeChainId}\<close>). \<open>None\<close> is the absent field.
\<close>

record Account =
  acc_address :: "Address option"
  acc_activeChainId :: int
  acc_session :: "Session option"

record ChainInfo =
  info_id :: int
  contracts :: string
  capabilities :: string

datatype Transport = Http | CustomTransport string

record AppMetadata =
  app_name :: string
  app_icon :: "string option"

type_synonym SessionPreferences = string

text \<open>
  The client built by \<open>createZksyncSessionClient\<close> (an external collaborator): it is
  represented by the parameters the Signer passes to the factory.
\<close>

record SessionClient =
  client_address :: "Address option"
  client_sessionKey :: Hash
  client_sessionConfig :: string
  client_contracts :: string
  client_chain :: Chain
  client_transport :: Transport

text \<open>The account part and the whole of a handshake result (\<open>eth_requestAccounts\<close>).\<close>

record HandshakeAccount =
  hs_address :: Address
  hs_activeChainId :: "int option"
  hs_session :: "Session option"

record HandshakeData =
  hs_account :: HandshakeAccount
  hs_chainsInfo :: "ChainInfo list"

datatype ChainIdParam = ChainIdNumber int | ChainIdString string

datatype Request =
    EthEstimateGas string
  | EthSendTransaction string
  | WalletSwitchEthereumChain ChainIdParam
  | WalletGetCapabilities
  | EthAccounts
  | EthRequestAccounts AppMetadata "SessionPreferences option"
  | OtherMethod string string

text \<open>
  JavaScript values a request can resolve with. \<open>Undefined\<close> is the "not handled"
  sentinel of \<open>tryLocalHandling\<close>; \<open>Null\<close> is a legitimate result.
\<close>

datatype Value =
    Undefined
  | Null
  | HexValue string
  | Addresses "Address option list"
  | CapabilitiesOf int string
  | OpaqueValue string

datatype error =
    NoChains
  | ChainNotSupported int
  | WalletClientNotCreated
  | AccountNotSet
  | ChainInfoNotSetDuringHandshake Chain
  | ChainInfoNotSet
  | RemoteError string
  | Thrown string

record RPCRequestMessage =
  msg_id :: string
  msg_action :: Request
  msg_chainId :: int

datatype 'r Content = Result 'r | Error string

text \<open>
  What the Signer does to its collaborators, in order (most recent last): the update
  listener, the console, the two storage slots (by key), the communicator and the local
  session client. The listener's callbacks, the console, the storage and the client
  factory are taken to return normally; the communicator, the local session client, the
  two providers and \<open>hexToNumber\<close> can throw or reject. A logged message is recorded
  without the values interpolated into it.
\<close>

datatype event =
    OnAccountsUpdate "Address option list"
  | OnChainUpdate int
  | ConsoleError string
  | StorageWrite string
  | CommunicatorReady
  | CommunicatorPost RPCRequestMessage
  | ClientRequest SessionClient Request
  | ClientSendTransaction SessionClient string

text \<open>
  The fields of a constructed \<open>Signer\<close>. The constructor throws on an empty chain list
  before it assigns any field, so the readonly \<open>chains\<close> of an instance is never empty:
  it is kept as its first entry \<open>chains0\<close> (\<open>this.chains[0]!\<close>) and the rest.
  \<open>getMetadata\<close> and \<open>sessionParameters\<close> are the providers, given by what a call of
  them does (\<open>Inl\<close>: it throws or rejects); \<open>sessionParameters = None\<close> is no provider.
  \<open>account_item\<close> and \<open>chainsInfo_item\<close> are what the two persisted slots hold.
\<close>

record Signer =
  chains0 :: Chain
  chains_rest :: "Chain list"
  transports :: "(int \<times> Transport) list"
  getMetadata :: "error + AppMetadata"
  sessionParameters :: "(error + SessionPreferences) option"
  account_item :: "Account option"
  chainsInfo_item :: "ChainInfo list"
  walletClient :: "SessionClient option"
  events :: "event list"

text \<open>
  What the outside world does during one asynchronous call: the id \<open>crypto.randomUUID()\<close>
  returns, whether \<open>communicator.ready()\<close> rejects, what
  \<open>communicator.postRequestAndWaitForResponse\<close> does, what the local session client
  answers, and viem's \<open>hexToNumber\<close>.
\<close>

record 'r World =
  uuid :: string
  ready_outcome :: "error option"
  post_outcome :: "error + 'r Content"
  client_outcome :: "error + Value"
  hexToNumber :: "string \<Rightarrow> error + int"

record SignerConstructorParams =
  p_metadata :: "error + AppMetadata"
  p_chains :: "Chain list"
  p_transports :: "(int \<times> Transport) list option"
  p_session :: "(error + SessionPreferences) option"

record Storage =
  stored_account :: "Account option"
  stored_chainsInfo :: "ChainInfo list"

section \<open>Sequencing of calls that can throw\<close>

text \<open>
  A call returns the value or the error it throws, and the Signer as the call leaves it:
  what was written before a throw stays written.
\<close>

type_synonym 'a Outcome = "(error + 'a) \<times> Signer"

definition and_then :: "'a Outcome \<Rightarrow> ('a \<Rightarrow> Signer \<Rightarrow> 'b Outcome) \<Rightarrow> 'b Outcome" where
  "and_then m f = (case m of (Inl e, sg) \<Rightarrow> (Inl e, sg) | (Inr x, sg) \<Rightarrow> f x sg)"

definition emit :: "event list \<Rightarrow> Signer \<Rightarrow> Signer" where
  "emit evs sg = sg\<lparr>events := events sg @ evs\<rparr>"

text \<open>\<open>x || d\<close> on an optional number: \<open>undefined\<close> and \<open>0\<close> are falsy.\<close>

fun js_or :: "int option \<Rightarrow> int \<Rightarrow> int" where
  "js_or None d = d"
| "js_or (Some x) d = (if x = 0 then d else x)"

section \<open>The persistent state cell\<close>

text \<open>
  Modelled from the spec: \<open>StorageItem\<close> (utils/storage.js is not among the sources).
  Section 4.1: \<open>get()\<close> returns the value, \<open>set(v)\<close> stores it, \<open>remove()\<close> resets the
  slot to its configured default, and the on-change callback is invoked synchronously
  after every \<open>set\<close>/\<open>remove\<close> with the new value, which is what \<open>get()\<close> returns then.
  \<open>write\<close> is the slot's store operation and \<open>onChange\<close> its callback.
\<close>

definition StorageItem_set ::
  "('a \<Rightarrow> Signer \<Rightarrow> Signer) \<Rightarrow> ('a \<Rightarrow> Signer \<Rightarrow> unit Outcome) \<Rightarrow> 'a \<Rightarrow> Signer \<Rightarrow> unit Outcome" where
  "StorageItem_set write onChange v sg = onChange v (write v sg)"

definition StorageItem_remove ::
  "('a \<Rightarrow> Signer \<Rightarrow> Signer) \<Rightarrow> ('a \<Rightarrow> Signer \<Rightarrow> unit Outcome) \<Rightarrow> 'a \<Rightarrow> Signer \<Rightarrow> unit Outcome" where
  "StorageItem_remove write onChange dflt sg = onChange dflt (write dflt sg)"

definition write_account :: "Account option \<Rightarrow> Signer \<Rightarrow> Signer" where
  "write_account v sg = emit [StorageWrite ''account''] (sg\<lparr>account_item := v\<rparr>)"

definition write_chainsInfo :: "ChainInfo list \<Rightarrow> Signer \<Rightarrow> Signer" where
  "write_chainsInfo v sg = emit [StorageWrite ''chainsInfo''] (sg\<lparr>chainsInfo_item := v\<rparr>)"

text \<open>The \<open>chainsInfo\<close> slot is constructed without a callback.\<close>

definition no_onChange :: "'a \<Rightarrow> Signer \<Rightarrow> unit Outcome" where
  "no_onChange v sg = (Inr (), sg)"

section \<open>The Signer (Signer.ts, lines 45-270)\<close>

definition chains :: "Signer \<Rightarrow> Chain list" where
  "chains sg = chains0 sg # chains_rest sg"

text \<open>Lines 96-104: the \<open>account\<close> getter.\<close>

definition account :: "Signer \<Rightarrow> Account option" where
  "account sg =
     (case account_item sg of
        None \<Rightarrow> None
      | Some a \<Rightarrow>
          (let chain = find (\<lambda>e. chain_id e = acc_activeChainId a) (chains sg)
           in Some (a\<lparr>acc_activeChainId :=
                js_or (map_option chain_id chain) (chain_id (chains0 sg))\<rparr>)))"

text \<open>Lines 106, 107, 113.\<close>

definition session :: "Signer \<Rightarrow> Session option" where
  "session sg = (case account sg of None \<Rightarrow> None | Some a \<Rightarrow> acc_session a)"

definition chainsInfo :: "Signer \<Rightarrow> ChainInfo list" where
  "chainsInfo sg = chainsInfo_item sg"

definition accounts :: "Signer \<Rightarrow> Address option list" where
  "accounts sg = (case account sg of None \<Rightarrow> [] | Some a \<Rightarrow> [acc_address a])"

text \<open>
  Lines 114-117: the \<open>chain\<close> getter. \<open>find(...)!\<close> only asserts that a chain is found;
  the \<open>None\<close> branch stands for the \<open>undefined\<close> it would return otherwise, and
  \<open>chain_find\<close> below proves that it is never taken.
\<close>

definition chain :: "Signer \<Rightarrow> Chain" where
  "chain sg =
     (let chainId = js_or (map_option acc_activeChainId (account sg)) (chain_id (chains0 sg))
      in case find (\<lambda>e. chain_id e = chainId) (chains sg) of
           Some c \<Rightarrow> c
         | None \<Rightarrow> chains0 sg)"

text \<open>Lines 119-137.\<close>

definition createWalletClient :: "Signer \<Rightarrow> unit Outcome" where
  "createWalletClient sg =
     (let session = session sg;
          chain = chain sg;
          chainInfo = find (\<lambda>e. info_id e = chain_id chain) (chainsInfo sg)
      in case account sg of
           None \<Rightarrow> (Inl AccountNotSet, sg)
         | Some a \<Rightarrow>
            (case chainInfo of
               None \<Rightarrow> (Inl (ChainInfoNotSetDuringHandshake chain), sg)
             | Some ci \<Rightarrow>
                (case session of
                   Some se \<Rightarrow>
                     (Inr (), sg\<lparr>walletClient := Some
                        \<lparr>client_address = acc_address a,
                         client_sessionKey = sessionKey se,
                         client_sessionConfig = sessionConfig se,
                         client_contracts = contracts ci,
                         client_chain = chain,
                         client_transport =
                           (case map_of (transports sg) (chain_id chain) of
                              Some t \<Rightarrow> t | None \<Rightarrow> Http)\<rparr>\<rparr>)
                 | None \<Rightarrow> (Inr (), sg\<lparr>walletClient := None\<rparr>))))"

text \<open>Lines 68-76: the on-change callback of the \<open>account\<close> slot.\<close>

definition account_onChange :: "Account option \<Rightarrow> Signer \<Rightarrow> unit Outcome" where
  "account_onChange newValue sg =
     (case newValue of
        Some a \<Rightarrow>
          createWalletClient
            (emit [OnAccountsUpdate [acc_address a], OnChainUpdate (acc_activeChainId a)] sg)
      | None \<Rightarrow> (Inr (), emit [OnAccountsUpdate []] sg))"

definition account_set :: "Account option \<Rightarrow> Signer \<Rightarrow> unit Outcome" where
  "account_set = StorageItem_set write_account account_onChange"

definition account_remove :: "Signer \<Rightarrow> unit Outcome" where
  "account_remove = StorageItem_remove write_account account_onChange None"

definition chainsInfo_set :: "ChainInfo list \<Rightarrow> Signer \<Rightarrow> unit Outcome" where
  "chainsInfo_set = StorageItem_set write_chainsInfo no_onChange"

definition chainsInfo_remove :: "Signer \<Rightarrow> unit Outcome" where
  "chainsInfo_remove = StorageItem_remove write_chainsInfo no_onChange []"

text \<open>Lines 108-111.\<close>

definition clearState :: "Signer \<Rightarrow> unit Outcome" where
  "clearState sg = and_then (account_remove sg) (\<lambda>_. chainsInfo_remove)"

text \<open>
  Lines 57-85: the constructor, given what the two storage slots hold. \<open>new_signer\<close> is
  the instance after the field assignments of lines 60-77 (a new instance has no wallet
  client and has called nothing yet); the constructor then runs the \<open>try\<close> block.
\<close>

definition new_signer :: "SignerConstructorParams \<Rightarrow> Chain \<Rightarrow> Chain list \<Rightarrow> Storage \<Rightarrow> Signer" where
  "new_signer p c cs st =
     \<lparr>chains0 = c, chains_rest = cs,
      transports = (case p_transports p of Some t \<Rightarrow> t | None \<Rightarrow> []),
      getMetadata = p_metadata p,
      sessionParameters = p_session p,
      account_item = stored_account st,
      chainsInfo_item = stored_chainsInfo st,
      walletClient = None,
      events = []\<rparr>"

definition "constructor" :: "SignerConstructorParams \<Rightarrow> Storage \<Rightarrow> error + Signer" where
  "constructor p st =
     (case p_chains p of
        [] \<Rightarrow> Inl NoChains
      | c # cs \<Rightarrow>
         (let sg = new_signer p c cs st
          in if account sg \<noteq> None
             then (case createWalletClient sg of
                     (Inr _, sg') \<Rightarrow> Inr sg'
                   | (Inl e, sg') \<Rightarrow>
                      (case clearState
                              (emit [ConsoleError ''Failed to create wallet client'',
                                     ConsoleError ''Logging out to prevent crash loop''] sg') of
                         (Inr _, sg'') \<Rightarrow> Inr sg''
                       | (Inl e', _) \<Rightarrow> Inl e'))
             else Inr sg))"

text \<open>Lines 87-94; the parameter is \<open>parameters?.chainId\<close>.\<close>

definition getClient :: "int option \<Rightarrow> Signer \<Rightarrow> error + SessionClient" where
  "getClient parameters sg =
     (let chainId = js_or parameters (chain_id (chain sg))
      in case find (\<lambda>e. chain_id e = chainId) (chains sg) of
           None \<Rightarrow> Inl (ChainNotSupported chainId)
         | Some c \<Rightarrow>
            (case walletClient sg of
               None \<Rightarrow> Inl WalletClientNotCreated
             | Some wc \<Rightarrow> Inr wc))"

text \<open>Lines 241-269: \<open>sendRpcRequest\<close> with \<open>createRequestMessage\<close>.\<close>

definition createRequestMessage :: "'r World \<Rightarrow> Request \<Rightarrow> int \<Rightarrow> RPCRequestMessage" where
  "createRequestMessage w action chainId =
     \<lparr>msg_id = uuid w, msg_action = action, msg_chainId = chainId\<rparr>"

definition sendRpcRequest :: "'r World \<Rightarrow> Request \<Rightarrow> Signer \<Rightarrow> 'r Outcome" where
  "sendRpcRequest w request sg =
     (let sg1 = emit [CommunicatorReady] sg
      in case ready_outcome w of
           Some e \<Rightarrow> (Inl e, sg1)
         | None \<Rightarrow>
            (let message = createRequestMessage w request (chain_id (chain sg1));
                 sg2 = emit [CommunicatorPost message] sg1
             in case post_outcome w of
                  Inl e \<Rightarrow> (Inl e, sg2)
                | Inr (Error e) \<Rightarrow> (Inl (RemoteError e), sg2)
                | Inr (Result r) \<Rightarrow> (Inr r, sg2)))"

text \<open>Lines 139-173.\<close>

definition default_metadata :: AppMetadata where
  "default_metadata = \<lparr>app_name = ''Unknown DApp'', app_icon = None\<rparr>"

text \<open>
  Lines 140-149 and 150-156: the two providers are advisory. Each returns what the
  handshake uses and what it logs.
\<close>

definition resolve_metadata :: "Signer \<Rightarrow> AppMetadata \<times> event list" where
  "resolve_metadata sg =
     (case getMetadata sg of
        Inr m \<Rightarrow> (m, [])
      | Inl e \<Rightarrow> (default_metadata,
          [ConsoleError ''Failed to get website metadata. Proceeding with default one.'']))"

definition resolve_sessionPreferences :: "Signer \<Rightarrow> SessionPreferences option \<times> event list" where
  "resolve_sessionPreferences sg =
     (case sessionParameters sg of
        None \<Rightarrow> (None, [])
      | Some (Inr sp) \<Rightarrow> (Some sp, [])
      | Some (Inl e) \<Rightarrow> (None,
          [ConsoleError ''Failed to get session data. Proceeding connection with no session.'']))"

text \<open>
  Lines 157-172. \<open>this.chain.id\<close> in the new account is read after the \<open>chainsInfo\<close>
  slot is set and before the \<open>account\<close> slot is.
\<close>

definition handshake :: "HandshakeData World \<Rightarrow> Signer \<Rightarrow> (Address option list) Outcome" where
  "handshake w sg =
     (let (metadata, log1) = resolve_metadata sg;
          (sessionPreferences, log2) = resolve_sessionPreferences sg;
          sg2 = emit (log1 @ log2) sg
      in and_then (sendRpcRequest w (EthRequestAccounts metadata sessionPreferences) sg2)
           (\<lambda>handshakeData sg3.
              and_then (chainsInfo_set (hs_chainsInfo handshakeData) sg3)
                (\<lambda>_ sg4.
                   and_then
                     (account_set
                        (Some \<lparr>acc_address = Some (hs_address (hs_account handshakeData)),
                               acc_activeChainId =
                                 js_or (hs_activeChainId (hs_account handshakeData))
                                       (chain_id (chain sg4)),
                               acc_session = hs_session (hs_account handshakeData)\<rparr>)
                        sg4)
                     (\<lambda>_ sg5. (Inr (accounts sg5), sg5)))))"

text \<open>
  Lines 175-193. \<open>{...this.account!, activeChainId: chain.id}\<close> keeps the fields of the
  account read through the getter, and has only \<open>activeChainId\<close> when that is \<open>null\<close>.
\<close>

definition switchChain :: "int \<Rightarrow> Signer \<Rightarrow> bool Outcome" where
  "switchChain chainId sg =
     (let chain' = find (\<lambda>c. chain_id c = chainId) (chains sg);
          chainInfo = find (\<lambda>e. info_id e = chainId) (chainsInfo sg)
      in case chainInfo of
           None \<Rightarrow> (Inr False,
             emit [ConsoleError ''Chain is not supported or chain info was not set during handshake''] sg)
         | Some ci \<Rightarrow>
            (case chain' of
               None \<Rightarrow> (Inr False,
                 emit [ConsoleError ''Chain is missing in the configuration''] sg)
             | Some c \<Rightarrow>
                if chain_id c = chain_id (chain sg) then (Inr True, sg)
                else and_then
                       (account_set
                          (Some (case account sg of
                                   Some a \<Rightarrow> a\<lparr>acc_activeChainId := chain_id c\<rparr>
                                 | None \<Rightarrow> \<lparr>acc_address = None,
                                            acc_activeChainId = chain_id c,
                                            acc_session = None\<rparr>))
                          sg)
                       (\<lambda>_ sg'. (Inr True, sg'))))"

text \<open>Lines 207-239.\<close>

definition tryLocalHandling :: "'r World \<Rightarrow> Request \<Rightarrow> Signer \<Rightarrow> Value Outcome" where
  "tryLocalHandling w request sg =
     (case request of
        EthEstimateGas params \<Rightarrow>
          (case walletClient sg of
             None \<Rightarrow> (Inr Undefined, sg)
           | Some wc \<Rightarrow>
               if session sg = None then (Inr Undefined, sg)
               else (client_outcome w, emit [ClientRequest wc request] sg))
      | EthSendTransaction transactionRequest \<Rightarrow>
          (case walletClient sg of
             None \<Rightarrow> (Inr Undefined, sg)
           | Some wc \<Rightarrow>
               if session sg = None then (Inr Undefined, sg)
               else (client_outcome w, emit [ClientSendTransaction wc transactionRequest] sg))
      | WalletSwitchEthereumChain chainId \<Rightarrow>
          (case (case chainId of
                   ChainIdString s \<Rightarrow> hexToNumber w s
                 | ChainIdNumber n \<Rightarrow> Inr n) of
             Inl e \<Rightarrow> (Inl e, sg)
           | Inr n \<Rightarrow>
               and_then (switchChain n sg)
                 (\<lambda>switched sg'. (Inr (if switched then Null else Undefined), sg')))
      | WalletGetCapabilities \<Rightarrow>
          (case find (\<lambda>e. info_id e = chain_id (chain sg)) (chainsInfo sg) of
             None \<Rightarrow> (Inl ChainInfoNotSet, sg)
           | Some ci \<Rightarrow> (Inr (CapabilitiesOf (chain_id (chain sg)) (capabilities ci)), sg))
      | EthAccounts \<Rightarrow> (Inr (Addresses (accounts sg)), sg)
      | _ \<Rightarrow> (Inr Undefined, sg))"

text \<open>Lines 195-201.\<close>

definition request :: "Value World \<Rightarrow> Request \<Rightarrow> Signer \<Rightarrow> Value Outcome" where
  "request w req sg =
     and_then (tryLocalHandling w req sg)
       (\<lambda>localResult sg'.
          if localResult \<noteq> Undefined then (Inr localResult, sg')
          else sendRpcRequest w req sg')"

text \<open>Lines 203-205.\<close>

definition disconnect :: "Signer \<Rightarrow> unit Outcome" where
  "disconnect sg = clearState sg"

section \<open>Observing the collaborators\<close>

fun is_communicator_event :: "event \<Rightarrow> bool" where
  "is_communicator_event CommunicatorReady = True"
| "is_communicator_event (CommunicatorPost m) = True"
| "is_communicator_event _ = False"

fun is_client_event :: "event \<Rightarrow> bool" where
  "is_client_event (ClientRequest wc r) = True"
| "is_client_event (ClientSendTransaction wc t) = True"
| "is_client_event _ = False"

fun is_storage_write :: "event \<Rightarrow> bool" where
  "is_storage_write (StorageWrite k) = True"
| "is_storage_write _ = False"

section \<open>Example instances\<close>

text \<open>
  The scenario of the spec's section 8: the chain list \<open>[{id: 1}, {id: 10}]\<close>, nothing
  in storage, and chain information for both chains.
\<close>

definition ex_chain1 :: Chain where
  "ex_chain1 = \<lparr>chain_id = 1, chain_name = ''one''\<rparr>"

definition ex_chain10 :: Chain where
  "ex_chain10 = \<lparr>chain_id = 10, chain_name = ''ten''\<rparr>"

definition ex_info1 :: ChainInfo where
  "ex_info1 = \<lparr>info_id = 1, contracts = ''contracts-1'', capabilities = ''caps-1''\<rparr>"

definition ex_info10 :: ChainInfo where
  "ex_info10 = \<lparr>info_id = 10, contracts = ''contracts-10'', capabilities = ''caps-10''\<rparr>"

definition ex_params :: SignerConstructorParams where
  "ex_params = \<lparr>p_metadata = Inr \<lparr>app_name = ''dapp'', app_icon = None\<rparr>,
                p_chains = [ex_chain1, ex_chain10],
                p_transports = None,
                p_session = None\<rparr>"

definition ex_empty_storage :: Storage where
  "ex_empty_storage = \<lparr>stored_account = None, stored_chainsInfo = []\<rparr>"

text \<open>
  Two resumed sessions: an account whose persisted chain id is not configured, and an
  account with no chain information in storage.
\<close>

definition ex_storage_unknown_chain :: Storage where
  "ex_storage_unknown_chain =
     \<lparr>stored_account = Some \<lparr>acc_address = Some ''0xA'', acc_activeChainId = 5, acc_session = None\<rparr>,
      stored_chainsInfo = [ex_info1, ex_info10]\<rparr>"

definition ex_storage_no_chainsInfo :: Storage where
  "ex_storage_no_chainsInfo =
     \<lparr>stored_account = Some \<lparr>acc_address = Some ''0xA'', acc_activeChainId = 10, acc_session = None\<rparr>,
      stored_chainsInfo = []\<rparr>"

text \<open>The instance the constructor returns for the scenario.\<close>

definition ex_fresh :: Signer where
  "ex_fresh = new_signer ex_params ex_chain1 [ex_chain10] ex_empty_storage"

text \<open>
  viem's \<open>hexToNumber\<close> is a library function and a parameter of the model. The examples
  fix it at the one string they pass to it, where the library's value is known:
  \<open>hexToNumber("0x1")\<close> is 1. Its value at every other string is left unspecified; no
  example calls it there and no theorem uses it.
\<close>

definition ex_hexToNumber :: "string \<Rightarrow> error + int" where
  "ex_hexToNumber s = (if s = ''0x1'' then Inr 1 else undefined)"

text \<open>
  The scenario's handshake response, with a session: account \<open>0xA\<close> on chain 10. The
  communicator is ready and delivers the response.
\<close>

definition ex_session :: Session where
  "ex_session = \<lparr>sessionKey = ''0xkey'', sessionConfig = ''config''\<rparr>"

definition ex_handshake_data :: HandshakeData where
  "ex_handshake_data =
     \<lparr>hs_account = \<lparr>hs_address = ''0xA'', hs_activeChainId = Some 10,
                    hs_session = Some ex_session\<rparr>,
      hs_chainsInfo = [ex_info1, ex_info10]\<rparr>"

definition ex_world :: "'r Content \<Rightarrow> 'r World" where
  "ex_world response =
     \<lparr>uuid = ''uuid-1'', ready_outcome = None, post_outcome = Inr response,
      client_outcome = Inr (HexValue ''0xhash''), hexToNumber = ex_hexToNumber\<rparr>"

definition ex_connected :: Signer where
  "ex_connected = snd (handshake (ex_world (Result ex_handshake_data)) ex_fresh)"

text \<open>A response that names a chain the Signer is not configured with, and no session.\<close>

definition ex_handshake_data_unconfigured :: HandshakeData where
  "ex_handshake_data_unconfigured =
     \<lparr>hs_account = \<lparr>hs_address = ''0xA'', hs_activeChainId = Some 5, hs_session = None\<rparr>,
      hs_chainsInfo = [ex_info1, ex_info10]\<rparr>"

text \<open>
  A response with a session and no chain information at all: the handshake fails in the
  on-change callback, after both slots were written.
\<close>

definition ex_handshake_data_no_info :: HandshakeData where
  "ex_handshake_data_no_info =
     \<lparr>hs_account = \<lparr>hs_address = ''0xA'', hs_activeChainId = Some 10,
                    hs_session = Some ex_session\<rparr>,
      hs_chainsInfo = []\<rparr>"

definition ex_failed_handshake :: Signer where
  "ex_failed_handshake = snd (handshake (ex_world (Result ex_handshake_data_no_info)) ex_fresh)"

text \<open>A configuration with a chain whose id is 0, resumed with an account on chain 1.\<close>

definition ex_chain0 :: Chain where
  "ex_chain0 = \<lparr>chain_id = 0, chain_name = ''zero''\<rparr>"

definition ex_info0 :: ChainInfo where
  "ex_info0 = \<lparr>info_id = 0, contracts = ''contracts-0'', capabilities = ''caps-0''\<rparr>"

definition ex_zero_signer :: Signer where
  "ex_zero_signer =
     new_signer (ex_params\<lparr>p_chains := [ex_chain1, ex_chain0]\<rparr>) ex_chain1 [ex_chain0]
       \<lparr>stored_account = Some \<lparr>acc_address = Some ''0xA'', acc_activeChainId = 1,
                               acc_session = None\<rparr>,
        stored_chainsInfo = [ex_info1, ex_info0]\<rparr>"

text \<open>
  The client the Signer builds for the scenario's response.
\<close>

definition ex_client :: SessionClient where
  "ex_client = \<lparr>client_address = Some ''0xA'', client_sessionKey = ''0xkey'',
                client_sessionConfig = ''config'', client_contracts = ''contracts-10'',
                client_chain = ex_chain10, client_transport = Http\<rparr>"

text \<open>A new Signer that finds stale chain information in storage and no account.\<close>

definition ex_stale_cache :: Signer where
  "ex_stale_cache =
     new_signer ex_params ex_chain1 [ex_chain10]
       \<lparr>stored_account = None,
        stored_chainsInfo = [\<lparr>info_id = 10, contracts = ''stale'', capabilities = ''stale''\<rparr>]\<rparr>"

section \<open>Basic facts\<close>

lemma chains_nonempty: "chains sg \<noteq> []"
  by (simp add: chains_def)

lemma js_or_zero: "js_or x d = 0 \<Longrightarrow> d = 0"
  by (cases x) (auto split: if_splits)

lemma find_SomeD: "find P xs = Some x \<Longrightarrow> P x \<and> x \<in> set xs"
  by (induction xs) (auto split: if_splits)

lemma find_chains0: "find (\<lambda>e. chain_id e = chain_id (chains0 sg)) (chains sg) = Some (chains0 sg)"
  by (simp add: chains_def)

lemma find_found_again:
  "find (\<lambda>e. chain_id e = k) xs = Some c \<Longrightarrow> find (\<lambda>e. chain_id e = chain_id c) xs = Some c"
  using find_SomeD [of "\<lambda>e. chain_id e = k" xs c] by simp

lemma account_None: "(account sg = None) = (account_item sg = None)"
  by (simp add: account_def Let_def split: option.splits)

lemma account_healed:
  "account_item sg = Some a \<Longrightarrow>
   account sg = Some (a\<lparr>acc_activeChainId :=
      js_or (map_option chain_id (find (\<lambda>e. chain_id e = acc_activeChainId a) (chains sg)))
            (chain_id (chains0 sg))\<rparr>)"
  by (simp add: account_def Let_def)

lemma healed_configured:
  "find (\<lambda>e. chain_id e = js_or (map_option chain_id (find (\<lambda>e. chain_id e = k) (chains sg))) (chain_id (chains0 sg))) (chains sg) \<noteq> None"
proof (cases "find (\<lambda>e. chain_id e = k) (chains sg)")
  case None
  then show ?thesis by (simp add: find_chains0)
next
  case (Some c)
  then show ?thesis
    by (cases "chain_id c = 0") (simp_all add: find_chains0 find_found_again)
qed

lemma account_active_configured:
  assumes "account sg = Some a"
  shows "find (\<lambda>e. chain_id e = acc_activeChainId a) (chains sg) \<noteq> None"
proof -
  obtain b where b: "account_item sg = Some b"
    using assms by (cases "account_item sg") (simp_all add: account_def)
  from account_healed [OF b] assms healed_configured [of "acc_activeChainId b" sg]
  show ?thesis by auto
qed

lemma chain_id_chain:
  "chain_id (chain sg) =
     js_or (map_option acc_activeChainId (account sg)) (chain_id (chains0 sg))"
proof (cases "account sg")
  case None
  then show ?thesis by (simp add: chain_def find_chains0)
next
  case (Some a)
  from account_active_configured [OF Some]
  obtain c where c: "find (\<lambda>e. chain_id e = acc_activeChainId a) (chains sg) = Some c"
    by auto
  have ca: "chain_id c = acc_activeChainId a" using find_SomeD [OF c] by simp
  show ?thesis
    using Some c ca by (cases "acc_activeChainId a = 0") (simp_all add: chain_def find_chains0)
qed

lemma chain_find:
  "find (\<lambda>e. chain_id e =
      js_or (map_option acc_activeChainId (account sg)) (chain_id (chains0 sg))) (chains sg)
   = Some (chain sg)"
proof (cases "account sg")
  case None
  then show ?thesis by (simp add: chain_def find_chains0)
next
  case (Some a)
  from account_active_configured [OF Some]
  obtain c where c: "find (\<lambda>e. chain_id e = acc_activeChainId a) (chains sg) = Some c"
    by auto
  show ?thesis
    using Some c by (cases "acc_activeChainId a = 0") (simp_all add: chain_def find_chains0)
qed

lemma chain_member: "chain sg \<in> set (chains sg)"
  using find_SomeD [OF chain_find] by simp

lemma find_chain_id_chain: "find (\<lambda>e. chain_id e = chain_id (chain sg)) (chains sg) = Some (chain sg)"
  using chain_find [of sg] by (simp add: chain_id_chain)

text \<open>\<open>clearState\<close> never throws; this is all it does.\<close>

lemma clearState_eq:
  "clearState sg =
     (Inr (), sg\<lparr>account_item := None, chainsInfo_item := [],
                events := events sg @
                  [StorageWrite ''account'', OnAccountsUpdate [], StorageWrite ''chainsInfo'']\<rparr>)"
  by (simp add: clearState_def and_then_def account_remove_def chainsInfo_remove_def
      StorageItem_remove_def account_onChange_def no_onChange_def write_account_def
      write_chainsInfo_def emit_def)

section \<open>Construction\<close>

text \<open>
  Claim C8. Constructing a Signer throws if and only if the configured chain list is empty:
  for every chain list with at least one entry the constructor returns an instance,
  whatever the storage slots hold, and for the empty list it throws the configuration
  error.
\<close>

theorem constructor_throws_iff_no_chains:
  "((\<exists>e. constructor p st = Inl e) \<longleftrightarrow> p_chains p = []) \<and>
   ((\<exists>sg. constructor p st = Inr sg) \<longleftrightarrow> p_chains p \<noteq> []) \<and>
   (constructor p st = Inl NoChains \<longleftrightarrow> p_chains p = [])"
proof (cases "p_chains p")
  case Nil
  then show ?thesis by (simp add: constructor_def)
next
  case (Cons c cs)
  obtain r sg' where r: "createWalletClient (new_signer p c cs st) = (r, sg')"
    by (cases "createWalletClient (new_signer p c cs st)")
  show ?thesis
    using Cons r by (cases r) (simp_all add: constructor_def Let_def clearState_eq)
qed

theorem constructor_throws_iff_no_chains_witness:
  "(\<exists>sg. constructor ex_params ex_empty_storage = Inr sg) \<and>
   constructor (ex_params\<lparr>p_chains := []\<rparr>) ex_empty_storage = Inl NoChains"
  using constructor_throws_iff_no_chains [of ex_params ex_empty_storage]
        constructor_throws_iff_no_chains [of "ex_params\<lparr>p_chains := []\<rparr>" ex_empty_storage]
  by (simp add: ex_params_def)

section \<open>Getters and writes\<close>

text \<open>What each getter reads, and what the writes leave alone.\<close>

lemma chains_cong:
  "chains0 sg' = chains0 sg \<Longrightarrow> chains_rest sg' = chains_rest sg \<Longrightarrow> chains sg' = chains sg"
  by (simp add: chains_def)

lemma account_cong:
  assumes "chains0 sg' = chains0 sg" and "chains_rest sg' = chains_rest sg"
    and "account_item sg' = account_item sg"
  shows "account sg' = account sg"
  unfolding account_def chains_def assms ..

lemma chain_cong:
  assumes "chains0 sg' = chains0 sg" and "chains_rest sg' = chains_rest sg"
    and "account_item sg' = account_item sg"
  shows "chain sg' = chain sg"
  unfolding chain_def account_cong [OF assms] chains_def assms ..

lemma session_cong: "account sg' = account sg \<Longrightarrow> session sg' = session sg"
  by (simp add: session_def)

lemma accounts_cong: "account sg' = account sg \<Longrightarrow> accounts sg' = accounts sg"
  by (simp add: accounts_def)

lemma fields_emit [simp]:
  "chains0 (emit evs sg) = chains0 sg"
  "chains_rest (emit evs sg) = chains_rest sg"
  "transports (emit evs sg) = transports sg"
  "getMetadata (emit evs sg) = getMetadata sg"
  "sessionParameters (emit evs sg) = sessionParameters sg"
  "account_item (emit evs sg) = account_item sg"
  "chainsInfo_item (emit evs sg) = chainsInfo_item sg"
  "walletClient (emit evs sg) = walletClient sg"
  "events (emit evs sg) = events sg @ evs"
  by (simp_all add: emit_def)

lemma getters_emit [simp]:
  "chains (emit evs sg) = chains sg" (is "chains ?S = _")
  "account (emit evs sg) = account sg"
  "chain (emit evs sg) = chain sg"
  "session (emit evs sg) = session sg"
  "accounts (emit evs sg) = accounts sg"
  "chainsInfo (emit evs sg) = chainsInfo sg"
proof -
  show "chains ?S = chains sg" by (rule chains_cong) simp_all
  show a: "account ?S = account sg" by (rule account_cong) simp_all
  show "chain ?S = chain sg" by (rule chain_cong) simp_all
  show "session ?S = session sg" by (rule session_cong) (rule a)
  show "accounts ?S = accounts sg" by (rule accounts_cong) (rule a)
qed (simp add: chainsInfo_def)

lemma getters_walletClient [simp]:
  "chains (sg\<lparr>walletClient := x\<rparr>) = chains sg" (is "chains ?S = _")
  "account (sg\<lparr>walletClient := x\<rparr>) = account sg"
  "chain (sg\<lparr>walletClient := x\<rparr>) = chain sg"
  "session (sg\<lparr>walletClient := x\<rparr>) = session sg"
  "accounts (sg\<lparr>walletClient := x\<rparr>) = accounts sg"
  "chainsInfo (sg\<lparr>walletClient := x\<rparr>) = chainsInfo sg"
proof -
  show "chains ?S = chains sg" by (rule chains_cong) simp_all
  show a: "account ?S = account sg" by (rule account_cong) simp_all
  show "chain ?S = chain sg" by (rule chain_cong) simp_all
  show "session ?S = session sg" by (rule session_cong) (rule a)
  show "accounts ?S = accounts sg" by (rule accounts_cong) (rule a)
qed (simp add: chainsInfo_def)

lemma fields_write_chainsInfo [simp]:
  "chains0 (write_chainsInfo v sg) = chains0 sg"
  "chains_rest (write_chainsInfo v sg) = chains_rest sg"
  "transports (write_chainsInfo v sg) = transports sg"
  "account_item (write_chainsInfo v sg) = account_item sg"
  "chainsInfo_item (write_chainsInfo v sg) = v"
  "walletClient (write_chainsInfo v sg) = walletClient sg"
  "events (write_chainsInfo v sg) = events sg @ [StorageWrite ''chainsInfo'']"
  by (simp_all add: write_chainsInfo_def emit_def)

lemma getters_write_chainsInfo [simp]:
  "chains (write_chainsInfo v sg) = chains sg" (is "chains ?S = _")
  "account (write_chainsInfo v sg) = account sg"
  "chain (write_chainsInfo v sg) = chain sg"
  "session (write_chainsInfo v sg) = session sg"
  "accounts (write_chainsInfo v sg) = accounts sg"
  "chainsInfo (write_chainsInfo v sg) = v"
proof -
  show "chains ?S = chains sg" by (rule chains_cong) simp_all
  show a: "account ?S = account sg" by (rule account_cong) simp_all
  show "chain ?S = chain sg" by (rule chain_cong) simp_all
  show "session ?S = session sg" by (rule session_cong) (rule a)
  show "accounts ?S = accounts sg" by (rule accounts_cong) (rule a)
qed (simp add: chainsInfo_def)

lemma fields_write_account [simp]:
  "chains0 (write_account v sg) = chains0 sg"
  "chains_rest (write_account v sg) = chains_rest sg"
  "transports (write_account v sg) = transports sg"
  "account_item (write_account v sg) = v"
  "chainsInfo_item (write_account v sg) = chainsInfo_item sg"
  "walletClient (write_account v sg) = walletClient sg"
  "events (write_account v sg) = events sg @ [StorageWrite ''account'']"
  by (simp_all add: write_account_def emit_def)

lemma getters_write_account [simp]:
  "chains (write_account v sg) = chains sg"
  "chainsInfo (write_account v sg) = chainsInfo sg"
  by (simp_all add: chains_def chainsInfo_def)

lemma createWalletClient_throws_unchanged:
  "fst (createWalletClient sg) = Inl e \<Longrightarrow> snd (createWalletClient sg) = sg"
  by (auto simp: createWalletClient_def Let_def split: option.splits)

lemma createWalletClient_ok:
  assumes "account sg = Some a"
    and "find (\<lambda>e. info_id e = chain_id (chain sg)) (chainsInfo sg) = Some ci"
  shows "createWalletClient sg =
     (Inr (), sg\<lparr>walletClient :=
        map_option (\<lambda>se. \<lparr>client_address = acc_address a,
                          client_sessionKey = sessionKey se,
                          client_sessionConfig = sessionConfig se,
                          client_contracts = contracts ci,
                          client_chain = chain sg,
                          client_transport =
                            (case map_of (transports sg) (chain_id (chain sg)) of
                               Some t \<Rightarrow> t | None \<Rightarrow> Http)\<rparr>) (acc_session a)\<rparr>)"
  using assms by (simp add: createWalletClient_def Let_def session_def split: option.splits)

lemma createWalletClient_no_info:
  assumes "account sg = Some a"
    and "find (\<lambda>e. info_id e = chain_id (chain sg)) (chainsInfo sg) = None"
  shows "createWalletClient sg = (Inl (ChainInfoNotSetDuringHandshake (chain sg)), sg)"
  using assms by (simp add: createWalletClient_def Let_def)

lemma account_set_Some:
  "account_set (Some a) sg =
     createWalletClient
       (emit [OnAccountsUpdate [acc_address a], OnChainUpdate (acc_activeChainId a)]
          (write_account (Some a) sg))"
  by (simp add: account_set_def StorageItem_set_def account_onChange_def)

lemma chainsInfo_set_eq: "chainsInfo_set v sg = (Inr (), write_chainsInfo v sg)"
  by (simp add: chainsInfo_set_def StorageItem_set_def no_onChange_def)

section \<open>Reading the account\<close>

text \<open>
  Claim C9. For every persisted Account whose \<open>activeChainId\<close> matches no configured
  chain, a read of the account observes the first configured chain's id as
  \<open>activeChainId\<close>, the active chain is the first configured chain, and the active chain
  id is a member of the configured chain list. The fallback is a substitution at read
  time: the getters are functions of the Signer that return no new Signer, and a read
  through the public interface (\<open>eth_accounts\<close>) returns the Signer as it was, the
  persisted Account included.
\<close>

theorem account_read_falls_back_to_first_chain:
  assumes "account_item sg = Some a"
    and "acc_activeChainId a \<notin> chain_id ` set (chains sg)"
  shows "account sg = Some (a\<lparr>acc_activeChainId := chain_id (chains0 sg)\<rparr>) \<and>
         chain sg = chains0 sg \<and>
         chain_id (chain sg) \<in> chain_id ` set (chains sg) \<and>
         request w EthAccounts sg = (Inr (Addresses [acc_address a]), sg)"
proof -
  have none: "find (\<lambda>e. chain_id e = acc_activeChainId a) (chains sg) = None"
    using assms(2) by (auto simp: find_None_iff image_iff)
  have acc: "account sg = Some (a\<lparr>acc_activeChainId := chain_id (chains0 sg)\<rparr>)"
    using account_healed [OF assms(1)] none by simp
  have "chain_id (chain sg) = chain_id (chains0 sg)"
    using acc by (cases "chain_id (chains0 sg) = 0") (simp_all add: chain_id_chain)
  then have "find (\<lambda>e. chain_id e = chain_id (chains0 sg)) (chains sg) = Some (chain sg)"
    using find_chain_id_chain [of sg] by simp
  then have ch: "chain sg = chains0 sg"
    by (simp add: find_chains0)
  have "request w EthAccounts sg = (Inr (Addresses [acc_address a]), sg)"
    using acc by (simp add: request_def tryLocalHandling_def and_then_def accounts_def)
  with acc ch chain_member [of sg] show ?thesis by auto
qed

theorem account_read_falls_back_to_first_chain_witness:
  "account (new_signer ex_params ex_chain1 [ex_chain10] ex_storage_unknown_chain) =
     Some \<lparr>acc_address = Some ''0xA'', acc_activeChainId = 1, acc_session = None\<rparr> \<and>
   chain (new_signer ex_params ex_chain1 [ex_chain10] ex_storage_unknown_chain) = ex_chain1 \<and>
   account_item (new_signer ex_params ex_chain1 [ex_chain10] ex_storage_unknown_chain) =
     Some \<lparr>acc_address = Some ''0xA'', acc_activeChainId = 5, acc_session = None\<rparr>"
proof -
  let ?sg = "new_signer ex_params ex_chain1 [ex_chain10] ex_storage_unknown_chain"
  let ?a = "\<lparr>acc_address = Some ''0xA'', acc_activeChainId = 5, acc_session = None\<rparr>"
  have 1: "account_item ?sg = Some ?a"
    by (simp add: new_signer_def ex_storage_unknown_chain_def)
  have 2: "acc_activeChainId ?a \<notin> chain_id ` set (chains ?sg)"
    by (simp add: new_signer_def chains_def ex_chain1_def ex_chain10_def)
  from account_read_falls_back_to_first_chain [OF 1 2] 1 show ?thesis
    by (simp add: new_signer_def ex_chain1_def)
qed

section \<open>Self-healing construction\<close>

text \<open>
  Claim C7. Whenever an account exists in storage at construction and the immediate
  rebuild of the session client throws, the constructor does not throw: it returns an
  instance in which both persisted slots hold their defaults (no account, no chain
  information), \<open>accounts\<close> is empty and there is no wallet client.
\<close>

theorem constructor_self_heals:
  assumes "p_chains p = c # cs"
    and "stored_account st \<noteq> None"
    and "fst (createWalletClient (new_signer p c cs st)) = Inl e"
  shows "\<exists>sg. constructor p st = Inr sg \<and>
           account_item sg = None \<and> chainsInfo_item sg = [] \<and>
           accounts sg = [] \<and> walletClient sg = None \<and>
           getClient None sg = Inl WalletClientNotCreated"
proof -
  let ?sg0 = "new_signer p c cs st"
  have acc: "account ?sg0 \<noteq> None"
    using assms(2) by (simp add: account_None new_signer_def)
  have same: "snd (createWalletClient ?sg0) = ?sg0"
    using assms(3) by (rule createWalletClient_throws_unchanged)
  have cw: "createWalletClient ?sg0 = (Inl e, ?sg0)"
    using assms(3) same by (cases "createWalletClient ?sg0") simp
  let ?sg = "snd (clearState (emit [ConsoleError ''Failed to create wallet client'',
                 ConsoleError ''Logging out to prevent crash loop''] ?sg0))"
  have c: "constructor p st = Inr ?sg"
    using assms(1) acc cw by (simp add: constructor_def Let_def clearState_eq)
  have w: "walletClient ?sg = None"
    by (simp add: clearState_eq) (simp add: new_signer_def)
  have a: "account_item ?sg = None" "chainsInfo_item ?sg = []"
    by (simp_all add: clearState_eq)
  have "accounts ?sg = []"
    using a by (simp add: accounts_def account_def)
  moreover have "getClient None ?sg = Inl WalletClientNotCreated"
    using w by (simp add: getClient_def Let_def find_chain_id_chain)
  ultimately show ?thesis using c w a by blast
qed

theorem constructor_self_heals_witness:
  "\<exists>sg. constructor ex_params ex_storage_no_chainsInfo = Inr sg \<and>
        account_item sg = None \<and> chainsInfo_item sg = [] \<and>
        accounts sg = [] \<and> walletClient sg = None \<and>
        getClient None sg = Inl WalletClientNotCreated"
proof -
  have 1: "p_chains ex_params = ex_chain1 # [ex_chain10]"
    by (simp add: ex_params_def)
  have 2: "stored_account ex_storage_no_chainsInfo \<noteq> None"
    by (simp add: ex_storage_no_chainsInfo_def)
  have 3: "fst (createWalletClient (new_signer ex_params ex_chain1 [ex_chain10] ex_storage_no_chainsInfo))
             = Inl (ChainInfoNotSetDuringHandshake ex_chain10)"
    by (simp add: createWalletClient_def Let_def new_signer_def ex_storage_no_chainsInfo_def
        account_def chain_def chains_def chainsInfo_def session_def ex_chain1_def ex_chain10_def)
  from constructor_self_heals [OF 1 2 3] show ?thesis .
qed

section \<open>Sequencing, the communicator and the handshake, unfolded\<close>

lemma emit_emit [simp]: "emit b (emit a sg) = emit (a @ b) sg"
  by (simp add: emit_def)

lemma emit_Nil [simp]: "emit [] sg = sg"
  by (simp add: emit_def)

lemma and_then_Inr [simp]: "and_then (Inr x, sg) f = f x sg"
  by (simp add: and_then_def)

lemma and_then_Inl [simp]: "and_then (Inl e, sg) f = (Inl e, sg)"
  by (simp add: and_then_def)

lemma sendRpcRequest_state:
  "snd (sendRpcRequest w req sg) =
     emit (CommunicatorReady #
           (case ready_outcome w of
              None \<Rightarrow> [CommunicatorPost \<lparr>msg_id = uuid w, msg_action = req,
                                       msg_chainId = chain_id (chain sg)\<rparr>]
            | Some e \<Rightarrow> [])) sg"
  by (simp add: sendRpcRequest_def Let_def createRequestMessage_def
      split: option.splits sum.splits Content.splits)

lemma sendRpcRequest_result:
  "fst (sendRpcRequest w req sg) =
     (case ready_outcome w of
        Some e \<Rightarrow> Inl e
      | None \<Rightarrow>
         (case post_outcome w of
            Inl e \<Rightarrow> Inl e
          | Inr (Error e) \<Rightarrow> Inl (RemoteError e)
          | Inr (Result r) \<Rightarrow> Inr r))"
  by (simp add: sendRpcRequest_def Let_def split: option.splits sum.splits Content.splits)

lemma sendRpcRequest_events:
  "events (snd (sendRpcRequest w req sg)) =
     events sg @ CommunicatorReady #
       (case ready_outcome w of
          None \<Rightarrow> [CommunicatorPost \<lparr>msg_id = uuid w, msg_action = req,
                                   msg_chainId = chain_id (chain sg)\<rparr>]
        | Some e \<Rightarrow> [])"
  by (simp add: sendRpcRequest_state)

lemma createWalletClient_events: "events (snd (createWalletClient sg)) = events sg"
  by (auto simp: createWalletClient_def Let_def split: option.splits)

lemma snd_and_then_const: "snd (and_then m (\<lambda>_ s. (Inr v, s))) = snd m"
  by (cases m) (auto simp: and_then_def split: sum.splits)

text \<open>
  A handshake whose response is delivered: both slots are written, the listener is
  notified, and the on-change callback rebuilds the wallet client.
\<close>

lemma handshake_delivered:
  assumes "ready_outcome w = None" and "post_outcome w = Inr (Result d)"
  shows "handshake w sg =
     and_then
       (createWalletClient
          (emit (snd (resolve_metadata sg) @ snd (resolve_sessionPreferences sg) @
                 [CommunicatorReady,
                  CommunicatorPost
                    \<lparr>msg_id = uuid w,
                     msg_action = EthRequestAccounts (fst (resolve_metadata sg))
                                    (fst (resolve_sessionPreferences sg)),
                     msg_chainId = chain_id (chain sg)\<rparr>,
                  StorageWrite ''chainsInfo'', StorageWrite ''account'',
                  OnAccountsUpdate [Some (hs_address (hs_account d))],
                  OnChainUpdate (js_or (hs_activeChainId (hs_account d)) (chain_id (chain sg)))])
             (sg\<lparr>chainsInfo_item := hs_chainsInfo d,
                 account_item := Some
                   \<lparr>acc_address = Some (hs_address (hs_account d)),
                    acc_activeChainId =
                      js_or (hs_activeChainId (hs_account d)) (chain_id (chain sg)),
                    acc_session = hs_session (hs_account d)\<rparr>\<rparr>)))
       (\<lambda>_ sg5. (Inr (accounts sg5), sg5))"
proof -
  obtain m l1 where m: "resolve_metadata sg = (m, l1)" by (cases "resolve_metadata sg")
  obtain sp l2 where sp: "resolve_sessionPreferences sg = (sp, l2)"
    by (cases "resolve_sessionPreferences sg")
  have s: "sendRpcRequest w (EthRequestAccounts m sp) (emit (l1 @ l2) sg) =
           (Inr d, emit (l1 @ l2 @ [CommunicatorReady,
              CommunicatorPost \<lparr>msg_id = uuid w, msg_action = EthRequestAccounts m sp,
                                msg_chainId = chain_id (chain sg)\<rparr>]) sg)"
    using assms by (simp add: sendRpcRequest_def Let_def createRequestMessage_def)
  show ?thesis
    unfolding handshake_def m sp
    by (simp add: s and_then_def chainsInfo_set_eq account_set_Some)
       (simp add: write_account_def write_chainsInfo_def emit_def)
qed

section \<open>The example instances, computed\<close>

lemma ex_fresh_constructed: "constructor ex_params ex_empty_storage = Inr ex_fresh"
  by (simp add: constructor_def ex_fresh_def ex_params_def Let_def account_None new_signer_def
      ex_empty_storage_def)

lemma ex_fresh_eq:
  "ex_fresh = \<lparr>chains0 = ex_chain1, chains_rest = [ex_chain10], transports = [],
      getMetadata = Inr \<lparr>app_name = ''dapp'', app_icon = None\<rparr>, sessionParameters = None,
      account_item = None, chainsInfo_item = [], walletClient = None, events = []\<rparr>"
  by (simp add: ex_fresh_def new_signer_def ex_params_def ex_empty_storage_def)

lemma ex_fresh_chain: "chain ex_fresh = ex_chain1" "account ex_fresh = None"
  by (simp_all add: ex_fresh_eq chain_def account_def chains_def)

lemma ex_hex: "ex_hexToNumber ''0x1'' = Inr 1"
  by (simp add: ex_hexToNumber_def)

lemma ex_connected_eq:
  "handshake (ex_world (Result ex_handshake_data)) ex_fresh =
     (Inr [Some ''0xA''],
      ex_fresh\<lparr>account_item := Some \<lparr>acc_address = Some ''0xA'', acc_activeChainId = 10,
                                      acc_session = Some ex_session\<rparr>,
               chainsInfo_item := [ex_info1, ex_info10],
               walletClient := Some ex_client,
               events := [CommunicatorReady,
                  CommunicatorPost \<lparr>msg_id = ''uuid-1'',
                    msg_action = EthRequestAccounts \<lparr>app_name = ''dapp'', app_icon = None\<rparr> None,
                    msg_chainId = 1\<rparr>,
                  StorageWrite ''chainsInfo'', StorageWrite ''account'',
                  OnAccountsUpdate [Some ''0xA''], OnChainUpdate 10]\<rparr>)"
proof -
  have r: "ready_outcome (ex_world (Result ex_handshake_data)) = None"
    "post_outcome (ex_world (Result ex_handshake_data)) = Inr (Result ex_handshake_data)"
    "uuid (ex_world (Result ex_handshake_data)) = ''uuid-1''"
    by (simp_all add: ex_world_def)
  show ?thesis
    unfolding handshake_delivered [OF r(1,2)] r(3) ex_fresh_chain
    by (simp add: ex_handshake_data_def resolve_metadata_def resolve_sessionPreferences_def
        ex_fresh_eq createWalletClient_def Let_def account_def chain_def chains_def
        session_def chainsInfo_def accounts_def emit_def ex_chain1_def ex_chain10_def
        ex_info1_def ex_info10_def ex_session_def ex_client_def)
qed

lemma ex_connected_state:
  "ex_connected =
     ex_fresh\<lparr>account_item := Some \<lparr>acc_address = Some ''0xA'', acc_activeChainId = 10,
                                      acc_session = Some ex_session\<rparr>,
               chainsInfo_item := [ex_info1, ex_info10],
               walletClient := Some ex_client,
               events := [CommunicatorReady,
                  CommunicatorPost \<lparr>msg_id = ''uuid-1'',
                    msg_action = EthRequestAccounts \<lparr>app_name = ''dapp'', app_icon = None\<rparr> None,
                    msg_chainId = 1\<rparr>,
                  StorageWrite ''chainsInfo'', StorageWrite ''account'',
                  OnAccountsUpdate [Some ''0xA''], OnChainUpdate 10]\<rparr>"
  by (simp add: ex_connected_def ex_connected_eq)

lemma ex_connected_getters:
  "chains ex_connected = [ex_chain1, ex_chain10]"
  "chainsInfo ex_connected = [ex_info1, ex_info10]"
  "account ex_connected = Some \<lparr>acc_address = Some ''0xA'', acc_activeChainId = 10,
                                 acc_session = Some ex_session\<rparr>"
  "chain ex_connected = ex_chain10"
  "session ex_connected = Some ex_session"
  "walletClient ex_connected = Some ex_client"
  "account_item ex_connected = Some \<lparr>acc_address = Some ''0xA'', acc_activeChainId = 10,
                                 acc_session = Some ex_session\<rparr>"
  by (simp_all add: ex_connected_state ex_fresh_eq chains_def chainsInfo_def account_def
      chain_def session_def ex_chain1_def ex_chain10_def)

lemma ex_zero_signer_constructed:
  "constructor (ex_params\<lparr>p_chains := [ex_chain1, ex_chain0]\<rparr>)
     \<lparr>stored_account = Some \<lparr>acc_address = Some ''0xA'', acc_activeChainId = 1,
                             acc_session = None\<rparr>,
      stored_chainsInfo = [ex_info1, ex_info0]\<rparr> = Inr ex_zero_signer"
  by (simp add: constructor_def ex_zero_signer_def Let_def new_signer_def ex_params_def
      createWalletClient_def account_def chain_def chains_def session_def chainsInfo_def
      ex_chain1_def ex_chain0_def ex_info1_def ex_info0_def)

lemma ex_failed_handshake_eq:
  "handshake (ex_world (Result ex_handshake_data_no_info)) ex_fresh =
     (Inl (ChainInfoNotSetDuringHandshake ex_chain10),
      ex_fresh\<lparr>account_item := Some \<lparr>acc_address = Some ''0xA'', acc_activeChainId = 10,
                                      acc_session = Some ex_session\<rparr>,
               events := [CommunicatorReady,
                  CommunicatorPost \<lparr>msg_id = ''uuid-1'',
                    msg_action = EthRequestAccounts \<lparr>app_name = ''dapp'', app_icon = None\<rparr> None,
                    msg_chainId = 1\<rparr>,
                  StorageWrite ''chainsInfo'', StorageWrite ''account'',
                  OnAccountsUpdate [Some ''0xA''], OnChainUpdate 10]\<rparr>)"
proof -
  have r: "ready_outcome (ex_world (Result ex_handshake_data_no_info)) = None"
    "post_outcome (ex_world (Result ex_handshake_data_no_info)) = Inr (Result ex_handshake_data_no_info)"
    "uuid (ex_world (Result ex_handshake_data_no_info)) = ''uuid-1''"
    by (simp_all add: ex_world_def)
  show ?thesis
    unfolding handshake_delivered [OF r(1,2)] r(3) ex_fresh_chain
    by (simp add: ex_handshake_data_no_info_def resolve_metadata_def resolve_sessionPreferences_def
        ex_fresh_eq createWalletClient_def Let_def account_def chain_def chains_def
        session_def chainsInfo_def accounts_def emit_def ex_chain1_def ex_chain10_def)
qed

lemma ex_failed_handshake_getters:
  "session ex_failed_handshake = Some ex_session"
  "walletClient ex_failed_handshake = None"
  "chain ex_failed_handshake = ex_chain10"
  "events ex_failed_handshake = [CommunicatorReady,
                  CommunicatorPost \<lparr>msg_id = ''uuid-1'',
                    msg_action = EthRequestAccounts \<lparr>app_name = ''dapp'', app_icon = None\<rparr> None,
                    msg_chainId = 1\<rparr>,
                  StorageWrite ''chainsInfo'', StorageWrite ''account'',
                  OnAccountsUpdate [Some ''0xA''], OnChainUpdate 10]"
proof -
  have st: "ex_failed_handshake =
      ex_fresh\<lparr>account_item := Some \<lparr>acc_address = Some ''0xA'', acc_activeChainId = 10,
                                      acc_session = Some ex_session\<rparr>,
               events := [CommunicatorReady,
                  CommunicatorPost \<lparr>msg_id = ''uuid-1'',
                    msg_action = EthRequestAccounts \<lparr>app_name = ''dapp'', app_icon = None\<rparr> None,
                    msg_chainId = 1\<rparr>,
                  StorageWrite ''chainsInfo'', StorageWrite ''account'',
                  OnAccountsUpdate [Some ''0xA''], OnChainUpdate 10]\<rparr>"
    by (simp add: ex_failed_handshake_def ex_failed_handshake_eq)
  show "session ex_failed_handshake = Some ex_session"
    "walletClient ex_failed_handshake = None"
    "chain ex_failed_handshake = ex_chain10"
    "events ex_failed_handshake = [CommunicatorReady,
                  CommunicatorPost \<lparr>msg_id = ''uuid-1'',
                    msg_action = EthRequestAccounts \<lparr>app_name = ''dapp'', app_icon = None\<rparr> None,
                    msg_chainId = 1\<rparr>,
                  StorageWrite ''chainsInfo'', StorageWrite ''account'',
                  OnAccountsUpdate [Some ''0xA''], OnChainUpdate 10]"
    by (simp_all add: st ex_fresh_eq session_def
        account_def chain_def chains_def ex_chain1_def ex_chain10_def)
qed

section \<open>Chain switching\<close>

lemma find_info_Some_iff:
  "(find (\<lambda>e. info_id e = k) xs \<noteq> None) = (k \<in> info_id ` set xs)"
  by (auto simp: find_None_iff image_iff)

lemma find_chain_Some_iff:
  "(find (\<lambda>e. chain_id e = k) xs \<noteq> None) = (k \<in> chain_id ` set xs)"
  by (auto simp: find_None_iff image_iff)

lemma switchChain_no_info:
  "chainId \<notin> info_id ` set (chainsInfo sg) \<Longrightarrow>
   switchChain chainId sg =
     (Inr False, emit [ConsoleError ''Chain is not supported or chain info was not set during handshake''] sg)"
  using find_info_Some_iff [of chainId "chainsInfo sg"]
  by (simp add: switchChain_def Let_def)

lemma switchChain_no_chain:
  "chainId \<in> info_id ` set (chainsInfo sg) \<Longrightarrow> chainId \<notin> chain_id ` set (chains sg) \<Longrightarrow>
   switchChain chainId sg =
     (Inr False, emit [ConsoleError ''Chain is missing in the configuration''] sg)"
  using find_info_Some_iff [of chainId "chainsInfo sg"] find_chain_Some_iff [of chainId "chains sg"]
  by (auto simp: switchChain_def Let_def split: option.splits)

lemma switchChain_active:
  assumes "chain_id (chain sg) \<in> info_id ` set (chainsInfo sg)"
  shows "switchChain (chain_id (chain sg)) sg = (Inr True, sg)"
proof -
  obtain ci where "find (\<lambda>e. info_id e = chain_id (chain sg)) (chainsInfo sg) = Some ci"
    using assms find_info_Some_iff [of "chain_id (chain sg)" "chainsInfo sg"] by auto
  then show ?thesis
    by (simp add: switchChain_def Let_def find_chain_id_chain)
qed

text \<open>
  A switch to another configured chain whose id is not 0: the account is stored with the
  new chain id, the listener is notified and the wallet client is rebuilt.
\<close>

lemma switchChain_switch:
  assumes info: "find (\<lambda>e. info_id e = chainId) (chainsInfo sg) = Some ci"
    and conf: "find (\<lambda>c. chain_id c = chainId) (chains sg) = Some c"
    and other: "chainId \<noteq> chain_id (chain sg)"
    and nz: "chainId \<noteq> 0"
  shows "\<exists>a wc. switchChain chainId sg =
           (Inr True,
            sg\<lparr>account_item := Some a, walletClient := wc,
               events := events sg @ [StorageWrite ''account'', OnAccountsUpdate [acc_address a],
                                      OnChainUpdate chainId]\<rparr>) \<and>
           acc_activeChainId a = chainId"
proof -
  define a where "a = (case account sg of
       Some a \<Rightarrow> a\<lparr>acc_activeChainId := chainId\<rparr>
     | None \<Rightarrow> \<lparr>acc_address = None, acc_activeChainId = chainId, acc_session = None\<rparr>)"
  define mid where "mid = emit [OnAccountsUpdate [acc_address a], OnChainUpdate (acc_activeChainId a)]
          (write_account (Some a) sg)"
  have cid: "chain_id c = chainId" using find_SomeD [OF conf] by simp
  have act: "acc_activeChainId a = chainId"
    by (simp add: a_def split: option.splits)
  have sw: "switchChain chainId sg = and_then (createWalletClient mid) (\<lambda>_ sg'. (Inr True, sg'))"
    using info conf other cid
    by (simp add: switchChain_def Let_def account_set_Some a_def mid_def cong: option.case_cong)
  have item: "account_item mid = Some a" by (simp add: mid_def)
  have chs: "chains mid = chains sg" "chains0 mid = chains0 sg" by (simp_all add: mid_def)
  have acc: "account mid = Some a"
    using account_healed [OF item] conf nz cid act by (simp add: chs)
  have "chain_id (chain mid) = chainId"
    using acc act nz by (simp add: chain_id_chain)
  then have inf: "find (\<lambda>e. info_id e = chain_id (chain mid)) (chainsInfo mid) = Some ci"
    using info by (simp add: mid_def)
  from createWalletClient_ok [OF acc inf] obtain wc where
    "createWalletClient mid = (Inr (), mid\<lparr>walletClient := wc\<rparr>)" by blast
  then have "switchChain chainId sg = (Inr True, mid\<lparr>walletClient := wc\<rparr>)"
    using sw by simp
  moreover have "mid\<lparr>walletClient := wc\<rparr> =
      sg\<lparr>account_item := Some a, walletClient := wc,
         events := events sg @ [StorageWrite ''account'', OnAccountsUpdate [acc_address a],
                                OnChainUpdate chainId]\<rparr>"
    by (simp add: mid_def act write_account_def emit_def)
  ultimately show ?thesis using act by auto
qed

lemma chain_after_switch:
  assumes "find (\<lambda>c. chain_id c = k) (chains sg) = Some c" and "k \<noteq> 0"
    and "acc_activeChainId a = k"
  shows "chain (sg\<lparr>account_item := Some a, walletClient := wc, events := evs\<rparr>) = c"
proof -
  let ?S = "sg\<lparr>account_item := Some a, walletClient := wc, events := evs\<rparr>"
  have chs: "chains ?S = chains sg" "chains0 ?S = chains0 sg"
    by (simp_all add: chains_def)
  have cid: "chain_id c = k" using find_SomeD [OF assms(1)] by simp
  have "account_item ?S = Some a" by simp
  from account_healed [OF this] have "account ?S = Some a"
    using assms cid by (simp add: chs)
  then have "chain_id (chain ?S) = k"
    using assms by (simp add: chain_id_chain)
  then have "find (\<lambda>e. chain_id e = k) (chains ?S) = Some (chain ?S)"
    using find_chain_id_chain [of ?S] by simp
  then show ?thesis using assms(1) by (simp add: chs)
qed

lemma switchChain_events:
  "\<exists>evs. events (snd (switchChain n sg)) = events sg @ evs \<and>
         filter is_communicator_event evs = [] \<and> filter is_client_event evs = []"
proof -
  have "events (snd (switchChain n sg)) = events sg
      \<or> (\<exists>m. events (snd (switchChain n sg)) = events sg @ [ConsoleError m])
      \<or> (\<exists>as k. events (snd (switchChain n sg)) =
            events sg @ [StorageWrite ''account'', OnAccountsUpdate as, OnChainUpdate k])"
    by (simp add: switchChain_def Let_def snd_and_then_const account_set_Some
        createWalletClient_events split: option.splits)
  then show ?thesis by auto
qed

text \<open>
  Away from chain id 0 the switch does what is specified. For every chain id other than 0
  that is a member of the configured chain list and has an entry in the cached
  \<open>ChainsInfo\<close>, \<open>switchChain\<close> returns \<open>true\<close> and afterwards the active chain id equals
  it. For every chain id that is not configured or has no \<open>ChainsInfo\<close> entry,
  \<open>switchChain\<close> returns \<open>false\<close> and leaves the persisted Account, the persisted
  \<open>ChainsInfo\<close> and the wallet client unchanged.
\<close>

lemma switchChain_nonzero:
  "(chainId \<in> chain_id ` set (chains sg) \<and> chainId \<in> info_id ` set (chainsInfo sg) \<and>
      chainId \<noteq> 0 \<longrightarrow>
      fst (switchChain chainId sg) = Inr True \<and>
      chain_id (chain (snd (switchChain chainId sg))) = chainId) \<and>
   (\<not> (chainId \<in> chain_id ` set (chains sg) \<and> chainId \<in> info_id ` set (chainsInfo sg)) \<longrightarrow>
      fst (switchChain chainId sg) = Inr False \<and>
      account_item (snd (switchChain chainId sg)) = account_item sg \<and>
      chainsInfo_item (snd (switchChain chainId sg)) = chainsInfo_item sg \<and>
      walletClient (snd (switchChain chainId sg)) = walletClient sg)"
proof (intro conjI impI)
  assume h: "chainId \<in> chain_id ` set (chains sg) \<and> chainId \<in> info_id ` set (chainsInfo sg) \<and>
      chainId \<noteq> 0"
  obtain ci where info: "find (\<lambda>e. info_id e = chainId) (chainsInfo sg) = Some ci"
    using h find_info_Some_iff [of chainId "chainsInfo sg"] by auto
  obtain c where conf: "find (\<lambda>c. chain_id c = chainId) (chains sg) = Some c"
    using h find_chain_Some_iff [of chainId "chains sg"] by auto
  have both: "fst (switchChain chainId sg) = Inr True \<and>
      chain_id (chain (snd (switchChain chainId sg))) = chainId"
  proof (cases "chainId = chain_id (chain sg)")
    case True
    then show ?thesis using switchChain_active [of sg] h by simp
  next
    case False
    from switchChain_switch [OF info conf False] h obtain a wc where
      sw: "switchChain chainId sg =
           (Inr True,
            sg\<lparr>account_item := Some a, walletClient := wc,
               events := events sg @ [StorageWrite ''account'', OnAccountsUpdate [acc_address a],
                                      OnChainUpdate chainId]\<rparr>)"
      and act: "acc_activeChainId a = chainId" by blast
    have "chain_id c = chainId" using find_SomeD [OF conf] by simp
    then show ?thesis
      using h by (simp add: sw chain_after_switch [OF conf _ act])
  qed
  from both show "fst (switchChain chainId sg) = Inr True" ..
  from both show "chain_id (chain (snd (switchChain chainId sg))) = chainId" ..
next
  assume n: "\<not> (chainId \<in> chain_id ` set (chains sg) \<and> chainId \<in> info_id ` set (chainsInfo sg))"
  have "switchChain chainId sg =
          (Inr False, emit [ConsoleError ''Chain is not supported or chain info was not set during handshake''] sg)
      \<or> switchChain chainId sg =
          (Inr False, emit [ConsoleError ''Chain is missing in the configuration''] sg)"
    using n switchChain_no_info [of chainId sg] switchChain_no_chain [of chainId sg] by blast
  then show "fst (switchChain chainId sg) = Inr False"
    and "account_item (snd (switchChain chainId sg)) = account_item sg"
    and "chainsInfo_item (snd (switchChain chainId sg)) = chainsInfo_item sg"
    and "walletClient (snd (switchChain chainId sg)) = walletClient sg"
    by auto
qed

text \<open>
  In the scenario, connected on chain 10: switching to chain 1 succeeds, switching to the
  unknown chain 7 is refused.
\<close>

lemma switchChain_nonzero_example:
  "fst (switchChain 1 ex_connected) = Inr True \<and>
   chain_id (chain (snd (switchChain 1 ex_connected))) = 1 \<and>
   fst (switchChain 7 ex_connected) = Inr False \<and>
   account_item (snd (switchChain 7 ex_connected)) = account_item ex_connected \<and>
   chainsInfo_item (snd (switchChain 7 ex_connected)) = chainsInfo_item ex_connected"
  using switchChain_nonzero [of 1 ex_connected] switchChain_nonzero [of 7 ex_connected]
  by (simp add: ex_connected_getters ex_chain1_def ex_chain10_def ex_info1_def ex_info10_def)

text \<open>
  Claim C1. \<open>switchChain(chainId)\<close> is to return \<open>true\<close> with \<open>chainId\<close> active
  afterwards exactly when \<open>chainId\<close> is configured and has an entry in the cached
  \<open>ChainsInfo\<close>. The code misses this for a configured chain with id 0. With the chains
  \<open>[{id: 1}, {id: 0}]\<close>, chain information for both and an account on chain 1,
  \<open>switchChain(0)\<close> finds the chain and its information, stores \<open>activeChainId: 0\<close>,
  notifies \<open>onChainUpdate(0)\<close> and returns \<open>true\<close>; but the \<open>account\<close> getter reads
  \<open>chain?.id || this.chains[0]!.id\<close> (line 102), where the id 0 of the chain it has just
  found is falsy, so the active chain is still chain 1.
\<close>

theorem switchChain_zero_not_activated:
  "0 \<in> chain_id ` set (chains ex_zero_signer) \<and>
   0 \<in> info_id ` set (chainsInfo ex_zero_signer) \<and>
   fst (switchChain 0 ex_zero_signer) = Inr True \<and>
   map_option acc_activeChainId (account_item (snd (switchChain 0 ex_zero_signer))) = Some 0 \<and>
   last (events (snd (switchChain 0 ex_zero_signer))) = OnChainUpdate 0 \<and>
   chain_id (chain (snd (switchChain 0 ex_zero_signer))) = 1"
  by (simp add: switchChain_def Let_def ex_zero_signer_def new_signer_def ex_params_def
      account_set_Some createWalletClient_def account_def chain_def chains_def session_def
      chainsInfo_def write_account_def emit_def
      ex_chain1_def ex_chain0_def ex_info1_def ex_info0_def)

text \<open>
  Claim C3, as amended. If the chain id is the active chain's and the cached
  \<open>ChainsInfo\<close> has an entry for it, \<open>switchChain\<close> returns \<open>true\<close> and changes nothing at
  all. If the cached \<open>ChainsInfo\<close> has no entry for it, \<open>switchChain\<close> returns \<open>false\<close>
  and only logs: the \<open>ChainsInfo\<close> check of line 178 comes before the comparison with
  the active chain of line 186.
\<close>

theorem switchChain_active_chain:
  "switchChain (chain_id (chain sg)) sg =
     (if chain_id (chain sg) \<in> info_id ` set (chainsInfo sg) then (Inr True, sg)
      else (Inr False,
            emit [ConsoleError ''Chain is not supported or chain info was not set during handshake''] sg))"
  by (simp add: switchChain_active switchChain_no_info)

text \<open>
  In the scenario, connected on chain 10, \<open>switchChain(10)\<close> is a no-op success.
\<close>

theorem switchChain_active_chain_witness:
  "chain_id (chain ex_connected) = 10 \<and> switchChain 10 ex_connected = (Inr True, ex_connected)"
  using switchChain_active_chain [of ex_connected]
  by (simp add: ex_connected_getters ex_chain10_def ex_info1_def ex_info10_def)

text \<open>
  Claim C3 as stated fails when the active chain has no \<open>ChainsInfo\<close> entry: a newly
  constructed Signer with nothing in storage has chain 1 active and an empty
  \<open>ChainsInfo\<close>, and \<open>switchChain(1)\<close> returns \<open>false\<close>.
\<close>

theorem switchChain_active_chain_counterexample:
  "chain_id (chain ex_fresh) = 1 \<and> chainsInfo ex_fresh = [] \<and>
   fst (switchChain 1 ex_fresh) = Inr False"
proof -
  have "chainsInfo ex_fresh = []" by (simp add: chainsInfo_def ex_fresh_eq)
  then show ?thesis
    by (simp add: switchChain_def Let_def ex_fresh_chain ex_chain1_def)
qed

section \<open>Disconnecting\<close>

lemma disconnect_eq:
  "disconnect sg =
     (Inr (), sg\<lparr>account_item := None, chainsInfo_item := [],
                events := events sg @
                  [StorageWrite ''account'', OnAccountsUpdate [], StorageWrite ''chainsInfo'']\<rparr>)"
  by (simp add: disconnect_def clearState_eq)

lemma disconnect_slots:
  "account_item (snd (disconnect sg)) = None"
  "chainsInfo_item (snd (disconnect sg)) = []"
  "accounts (snd (disconnect sg)) = []"
  "walletClient (snd (disconnect sg)) = walletClient sg"
  by (simp_all add: disconnect_eq accounts_def account_def)

lemma getClient_after_disconnect:
  "getClient None (snd (disconnect sg)) =
     (case walletClient sg of None \<Rightarrow> Inl WalletClientNotCreated | Some wc \<Rightarrow> Inr wc)"
  by (simp add: getClient_def Let_def find_chain_id_chain disconnect_slots)

text \<open>
  Claim C2. After \<open>disconnect()\<close> both persisted slots hold their defaults and
  \<open>accounts\<close> is empty, but \<open>getClient()\<close> does not throw when a wallet client had been
  built: \<open>clearState\<close> removes the two slots, the on-change callback of the \<open>account\<close>
  slot only notifies the listener for a \<open>null\<close> account, and nothing resets
  \<open>walletClient\<close>. In the scenario, after the handshake with a session and a
  disconnect, \<open>getClient()\<close> returns the client of the account that was disconnected.
\<close>

theorem disconnect_leaves_wallet_client:
  "fst (disconnect ex_connected) = Inr () \<and>
   account_item (snd (disconnect ex_connected)) = None \<and>
   chainsInfo_item (snd (disconnect ex_connected)) = [] \<and>
   accounts (snd (disconnect ex_connected)) = [] \<and>
   getClient None (snd (disconnect ex_connected)) = Inr ex_client"
proof -
  have "fst (disconnect ex_connected) = Inr ()" by (simp add: disconnect_eq)
  then show ?thesis
    by (simp add: getClient_after_disconnect disconnect_slots ex_connected_getters)
qed

section \<open>Request dispatch\<close>

lemma tryLocalHandling_sendTransaction:
  "tryLocalHandling w (EthSendTransaction tx) sg =
     (case walletClient sg of
        None \<Rightarrow> (Inr Undefined, sg)
      | Some wc \<Rightarrow>
          if session sg = None then (Inr Undefined, sg)
          else (client_outcome w, emit [ClientSendTransaction wc tx] sg))"
  by (simp add: tryLocalHandling_def)

text \<open>
  Claim C5, as amended. For every \<open>eth_sendTransaction\<close> request, the local session
  client is invoked, once, if and only if a wallet client has been built and a session
  exists on the current account (line 216). Otherwise the request is the remote one:
  \<open>communicator.ready()\<close> is awaited and, when it resolves, the request is posted to the
  communicator exactly once, in a message that carries the active chain id; when it
  rejects, nothing is posted. No local client is invoked then.
\<close>

theorem request_sendTransaction_dispatch:
  "(\<forall>wc. walletClient sg = Some wc \<and> session sg \<noteq> None \<longrightarrow>
      filter is_client_event (events (snd (request w (EthSendTransaction tx) sg))) =
        filter is_client_event (events sg) @ [ClientSendTransaction wc tx]) \<and>
   (walletClient sg = None \<or> session sg = None \<longrightarrow>
      request w (EthSendTransaction tx) sg = sendRpcRequest w (EthSendTransaction tx) sg \<and>
      events (snd (request w (EthSendTransaction tx) sg)) =
        events sg @ CommunicatorReady #
          (case ready_outcome w of
             None \<Rightarrow> [CommunicatorPost \<lparr>msg_id = uuid w, msg_action = EthSendTransaction tx,
                                      msg_chainId = chain_id (chain sg)\<rparr>]
           | Some e \<Rightarrow> []))"
proof (intro conjI allI impI)
  fix wc
  assume h: "walletClient sg = Some wc \<and> session sg \<noteq> None"
  then have t: "tryLocalHandling w (EthSendTransaction tx) sg =
      (client_outcome w, emit [ClientSendTransaction wc tx] sg)"
    by (auto simp: tryLocalHandling_sendTransaction)
  show "filter is_client_event (events (snd (request w (EthSendTransaction tx) sg))) =
        filter is_client_event (events sg) @ [ClientSendTransaction wc tx]"
  proof (cases "client_outcome w")
    case (Inl e)
    then show ?thesis by (simp add: request_def t)
  next
    case (Inr v)
    then show ?thesis
      by (cases "v = Undefined")
         (simp_all add: request_def t sendRpcRequest_events split: option.splits)
  qed
next
  assume h: "walletClient sg = None \<or> session sg = None"
  then have t: "tryLocalHandling w (EthSendTransaction tx) sg = (Inr Undefined, sg)"
    by (auto simp: tryLocalHandling_sendTransaction split: option.splits)
  then show r: "request w (EthSendTransaction tx) sg = sendRpcRequest w (EthSendTransaction tx) sg"
    by (simp add: request_def)
  show "events (snd (request w (EthSendTransaction tx) sg)) =
        events sg @ CommunicatorReady #
          (case ready_outcome w of
             None \<Rightarrow> [CommunicatorPost \<lparr>msg_id = uuid w, msg_action = EthSendTransaction tx,
                                      msg_chainId = chain_id (chain sg)\<rparr>]
           | Some e \<Rightarrow> [])"
    by (simp only: r sendRpcRequest_events)
qed

text \<open>
  In the scenario: connected with a session, the transaction goes to the local client;
  on a new Signer it is posted to the communicator with chain id 1.
\<close>

theorem request_sendTransaction_dispatch_witness:
  "filter is_client_event
     (events (snd (request (ex_world (Result Null)) (EthSendTransaction ''tx'') ex_connected))) =
     [ClientSendTransaction ex_client ''tx''] \<and>
   events (snd (request (ex_world (Result Null)) (EthSendTransaction ''tx'') ex_fresh)) =
     [CommunicatorReady,
      CommunicatorPost \<lparr>msg_id = ''uuid-1'', msg_action = EthSendTransaction ''tx'',
                        msg_chainId = 1\<rparr>]"
proof -
  have e: "events ex_fresh = []" "walletClient ex_fresh = None"
    by (simp_all add: ex_fresh_eq)
  have c: "filter is_client_event (events ex_connected) = []"
    by (simp add: ex_connected_state)
  have w: "ready_outcome (ex_world (Result Null)) = None"
    "uuid (ex_world (Result Null)) = ''uuid-1''"
    by (simp_all add: ex_world_def)
  note local = request_sendTransaction_dispatch
    [of ex_connected "ex_world (Result Null)" "''tx''", THEN conjunct1, rule_format, of ex_client]
  note remote = request_sendTransaction_dispatch
    [of ex_fresh "ex_world (Result Null)" "''tx''", THEN conjunct2, rule_format, THEN conjunct2]
  have "filter is_client_event
     (events (snd (request (ex_world (Result Null)) (EthSendTransaction ''tx'') ex_connected))) =
     [ClientSendTransaction ex_client ''tx'']"
    using local by (simp add: ex_connected_getters c)
  moreover have "events (snd (request (ex_world (Result Null)) (EthSendTransaction ''tx'') ex_fresh)) =
     [CommunicatorReady,
      CommunicatorPost \<lparr>msg_id = ''uuid-1'', msg_action = EthSendTransaction ''tx'',
                        msg_chainId = 1\<rparr>]"
    using remote by (simp add: e ex_fresh_chain w ex_chain1_def)
  ultimately show ?thesis by simp
qed

text \<open>
  Claim C5 as stated fails when a session exists and no wallet client was built. A
  handshake whose response carries a session and no chain information throws in the
  on-change callback after the account is stored: the session exists on the current
  account, \<open>walletClient\<close> is still undefined, and \<open>eth_sendTransaction\<close> is forwarded to
  the communicator without any call of a local client.
\<close>

theorem request_sendTransaction_counterexample:
  "session ex_failed_handshake = Some ex_session \<and>
   filter is_client_event
     (events (snd (request (ex_world (Result Null)) (EthSendTransaction ''tx'') ex_failed_handshake)))
     = [] \<and>
   filter is_communicator_event
     (drop (length (events ex_failed_handshake))
     (events (snd (request (ex_world (Result Null)) (EthSendTransaction ''tx'') ex_failed_handshake))))
     = [CommunicatorReady,
        CommunicatorPost \<lparr>msg_id = ''uuid-1'', msg_action = EthSendTransaction ''tx'',
                          msg_chainId = 10\<rparr>]"
  by (simp add: request_def tryLocalHandling_sendTransaction ex_failed_handshake_getters
      sendRpcRequest_events ex_world_def ex_chain10_def)

section \<open>Switching chains by request\<close>

lemma tryLocalHandling_switch:
  "tryLocalHandling w (WalletSwitchEthereumChain chainId) sg =
     (case (case chainId of ChainIdString s \<Rightarrow> hexToNumber w s | ChainIdNumber k \<Rightarrow> Inr k) of
        Inl e \<Rightarrow> (Inl e, sg)
      | Inr n \<Rightarrow>
          and_then (switchChain n sg)
            (\<lambda>switched sg'. (Inr (if switched then Null else Undefined), sg')))"
  by (simp add: tryLocalHandling_def)

lemma switchChain_False_state:
  assumes "switchChain n sg = (Inr False, sg')"
  shows "\<exists>m. sg' = emit [ConsoleError m] sg"
proof -
  have "fst (switchChain n sg) = Inr False \<longrightarrow> (\<exists>m. snd (switchChain n sg) = emit [ConsoleError m] sg)"
    by (auto simp: switchChain_def Let_def and_then_def split: option.splits prod.splits sum.splits)
  then show ?thesis using assms by simp
qed

text \<open>
  Claim C6. A \<open>wallet_switchEthereumChain\<close> request is handled locally: a string chain
  id is normalized with \<open>hexToNumber\<close>, a number is taken as it is, and the switch is
  delegated to \<open>switchChain\<close>. When \<open>switchChain\<close> returns \<open>true\<close> the request resolves
  with \<open>null\<close>, in the state \<open>switchChain\<close> left, and the communicator has not been
  called: \<open>null\<close> is not the "not handled" sentinel. When \<open>switchChain\<close> returns
  \<open>false\<close> the persisted slots are unchanged and the request is the remote one:
  \<open>communicator.ready()\<close>, then the request posted once with the active chain id.
\<close>

theorem request_switchEthereumChain:
  assumes "(case chainId of ChainIdString s \<Rightarrow> hexToNumber w s | ChainIdNumber k \<Rightarrow> Inr k) = Inr n"
    and "switchChain n sg = (Inr switched, sg')"
  shows "request w (WalletSwitchEthereumChain chainId) sg =
           (if switched then (Inr Null, sg')
            else sendRpcRequest w (WalletSwitchEthereumChain chainId) sg') \<and>
         filter is_communicator_event (events sg') = filter is_communicator_event (events sg) \<and>
         (\<not> switched \<longrightarrow>
            account_item sg' = account_item sg \<and> chainsInfo_item sg' = chainsInfo_item sg \<and>
            filter is_communicator_event
              (events (snd (request w (WalletSwitchEthereumChain chainId) sg))) =
            filter is_communicator_event (events sg) @ CommunicatorReady #
              (case ready_outcome w of
                 None \<Rightarrow> [CommunicatorPost
                            \<lparr>msg_id = uuid w, msg_action = WalletSwitchEthereumChain chainId,
                             msg_chainId = chain_id (chain sg)\<rparr>]
               | Some e \<Rightarrow> []))"
proof -
  have local: "tryLocalHandling w (WalletSwitchEthereumChain chainId) sg =
      (Inr (if switched then Null else Undefined), sg')"
    using assms by (simp add: tryLocalHandling_switch)
  have req: "request w (WalletSwitchEthereumChain chainId) sg =
           (if switched then (Inr Null, sg')
            else sendRpcRequest w (WalletSwitchEthereumChain chainId) sg')"
    by (simp add: request_def local)
  obtain evs where evs: "events (snd (switchChain n sg)) = events sg @ evs"
      "filter is_communicator_event evs = []"
    using switchChain_events [of n sg] by blast
  have quiet: "filter is_communicator_event (events sg') = filter is_communicator_event (events sg)"
    using evs assms(2) by simp
  have "\<not> switched \<longrightarrow>
            account_item sg' = account_item sg \<and> chainsInfo_item sg' = chainsInfo_item sg \<and>
            filter is_communicator_event
              (events (snd (request w (WalletSwitchEthereumChain chainId) sg))) =
            filter is_communicator_event (events sg) @ CommunicatorReady #
              (case ready_outcome w of
                 None \<Rightarrow> [CommunicatorPost
                            \<lparr>msg_id = uuid w, msg_action = WalletSwitchEthereumChain chainId,
                             msg_chainId = chain_id (chain sg)\<rparr>]
               | Some e \<Rightarrow> [])"
  proof
    assume ns: "\<not> switched"
    then obtain m where m: "sg' = emit [ConsoleError m] sg"
      using switchChain_False_state [of n sg sg'] assms(2) by auto
    show "account_item sg' = account_item sg \<and> chainsInfo_item sg' = chainsInfo_item sg \<and>
            filter is_communicator_event
              (events (snd (request w (WalletSwitchEthereumChain chainId) sg))) =
            filter is_communicator_event (events sg) @ CommunicatorReady #
              (case ready_outcome w of
                 None \<Rightarrow> [CommunicatorPost
                            \<lparr>msg_id = uuid w, msg_action = WalletSwitchEthereumChain chainId,
                             msg_chainId = chain_id (chain sg)\<rparr>]
               | Some e \<Rightarrow> [])"
      using ns by (simp add: req sendRpcRequest_events m split: option.splits)
  qed
  with req quiet show ?thesis by blast
qed

text \<open>
  In the scenario, connected on chain 10: the hexadecimal string \<open>0x1\<close> switches to
  chain 1 and resolves with \<open>null\<close>; the unknown chain 7 is forwarded, and the request
  resolves with the remote authorizer's answer.
\<close>

lemma ex_switch_to_1: "fst (switchChain 1 ex_connected) = Inr True"
proof -
  have i: "find (\<lambda>e. info_id e = 1) (chainsInfo ex_connected) = Some ex_info1"
    by (simp add: ex_connected_getters ex_info1_def)
  have c: "find (\<lambda>c. chain_id c = 1) (chains ex_connected) = Some ex_chain1"
    by (simp add: ex_connected_getters ex_chain1_def)
  have o: "(1::int) \<noteq> chain_id (chain ex_connected)"
    by (simp add: ex_connected_getters ex_chain10_def)
  from switchChain_switch [OF i c o] show ?thesis by auto
qed

lemma ex_switch_to_7: "switchChain 7 ex_connected =
   (Inr False, emit [ConsoleError ''Chain is not supported or chain info was not set during handshake''] ex_connected)"
  by (rule switchChain_no_info) (simp add: ex_connected_getters ex_info1_def ex_info10_def)

theorem request_switchEthereumChain_witness:
  "request (ex_world (Result (OpaqueValue ''remote''))) (WalletSwitchEthereumChain (ChainIdString ''0x1''))
      ex_connected = (Inr Null, snd (switchChain 1 ex_connected)) \<and>
   filter is_communicator_event (events (snd (switchChain 1 ex_connected))) =
     filter is_communicator_event (events ex_connected) \<and>
   fst (request (ex_world (Result (OpaqueValue ''remote''))) (WalletSwitchEthereumChain (ChainIdNumber 7))
      ex_connected) = Inr (OpaqueValue ''remote'')"
proof -
  let ?w = "ex_world (Result (OpaqueValue ''remote''))"
  have h: "hexToNumber ?w = ex_hexToNumber" "ready_outcome ?w = None"
    "post_outcome ?w = Inr (Result (OpaqueValue ''remote''))"
    by (simp_all add: ex_world_def)
  have n1: "(case ChainIdString ''0x1'' of ChainIdString s \<Rightarrow> hexToNumber ?w s
               | ChainIdNumber k \<Rightarrow> Inr k) = Inr 1"
    by (simp add: h ex_hex)
  have s1: "switchChain 1 ex_connected = (Inr True, snd (switchChain 1 ex_connected))"
    using ex_switch_to_1 by (cases "switchChain 1 ex_connected") simp
  have n7: "(case ChainIdNumber 7 of ChainIdString s \<Rightarrow> hexToNumber ?w s
               | ChainIdNumber k \<Rightarrow> Inr k) = Inr 7"
    by simp
  from request_switchEthereumChain [OF n1 s1]
  have a: "request ?w (WalletSwitchEthereumChain (ChainIdString ''0x1'')) ex_connected =
             (Inr Null, snd (switchChain 1 ex_connected))"
    and b: "filter is_communicator_event (events (snd (switchChain 1 ex_connected))) =
     filter is_communicator_event (events ex_connected)"
    by simp_all
  from request_switchEthereumChain [OF n7 ex_switch_to_7]
  have "request ?w (WalletSwitchEthereumChain (ChainIdNumber 7)) ex_connected =
      sendRpcRequest ?w (WalletSwitchEthereumChain (ChainIdNumber 7))
        (emit [ConsoleError ''Chain is not supported or chain info was not set during handshake'']
           ex_connected)"
    by simp
  then have c: "fst (request ?w (WalletSwitchEthereumChain (ChainIdNumber 7)) ex_connected) =
      Inr (OpaqueValue ''remote'')"
    by (simp add: sendRpcRequest_result h)
  from a b c show ?thesis by simp
qed

section \<open>Handshake\<close>

lemma handshake_Inr_delivered:
  assumes "handshake w sg = (Inr r, sg')"
  shows "ready_outcome w = None \<and> (\<exists>d. post_outcome w = Inr (Result d))"
proof -
  obtain m l1 where m: "resolve_metadata sg = (m, l1)" by (cases "resolve_metadata sg")
  obtain sp l2 where sp: "resolve_sessionPreferences sg = (sp, l2)"
    by (cases "resolve_sessionPreferences sg")
  have "\<exists>d. fst (sendRpcRequest w (EthRequestAccounts m sp) (emit (l1 @ l2) sg)) = Inr d"
    using assms unfolding handshake_def m sp
    by (cases "sendRpcRequest w (EthRequestAccounts m sp) (emit (l1 @ l2) sg)")
       (auto simp: and_then_def split: sum.splits)
  then show ?thesis
    by (auto simp: sendRpcRequest_result split: option.splits sum.splits Content.splits)
qed

text \<open>
  The active chain, from the persisted account: the configured chain with the persisted
  id when there is one and the id is not 0, else the first configured chain.
\<close>

lemma chain_of_item:
  assumes "account_item sg = Some a"
  shows "chain sg =
     (case find (\<lambda>c. chain_id c = acc_activeChainId a) (chains sg) of
        Some c \<Rightarrow> if chain_id c \<noteq> 0 then c else chains0 sg
      | None \<Rightarrow> chains0 sg)"
proof -
  let ?k = "acc_activeChainId a"
  note acc = account_healed [OF assms]
  show ?thesis
  proof (cases "find (\<lambda>c. chain_id c = ?k) (chains sg)")
    case None
    then have "chain_id (chain sg) = chain_id (chains0 sg)"
      using acc by (cases "chain_id (chains0 sg) = 0") (simp_all add: chain_id_chain)
    then have "find (\<lambda>e. chain_id e = chain_id (chains0 sg)) (chains sg) = Some (chain sg)"
      using find_chain_id_chain [of sg] by simp
    then show ?thesis using None by (simp add: find_chains0)
  next
    case (Some c)
    show ?thesis
    proof (cases "chain_id c = 0")
      case True
      then have "chain_id (chain sg) = chain_id (chains0 sg)"
        using acc Some by (cases "chain_id (chains0 sg) = 0") (simp_all add: chain_id_chain)
      then have "find (\<lambda>e. chain_id e = chain_id (chains0 sg)) (chains sg) = Some (chain sg)"
        using find_chain_id_chain [of sg] by simp
      then show ?thesis using Some True by (simp add: find_chains0)
    next
      case False
      then have "chain_id (chain sg) = chain_id c"
        using acc Some by (simp add: chain_id_chain)
      then have "find (\<lambda>e. chain_id e = chain_id c) (chains sg) = Some (chain sg)"
        using find_chain_id_chain [of sg] by simp
      then show ?thesis using Some False find_found_again [OF Some] by simp
    qed
  qed
qed

text \<open>
  What a handshake that resolves leaves behind.
\<close>

lemma handshake_success_state:
  assumes hs: "handshake w sg = (Inr r, sg')" and post: "post_outcome w = Inr (Result d)"
  shows "r = [Some (hs_address (hs_account d))]"
    and "accounts sg' = [Some (hs_address (hs_account d))]"
    and "account_item sg' = Some
           \<lparr>acc_address = Some (hs_address (hs_account d)),
            acc_activeChainId = js_or (hs_activeChainId (hs_account d)) (chain_id (chain sg)),
            acc_session = hs_session (hs_account d)\<rparr>"
    and "chainsInfo_item sg' = hs_chainsInfo d"
    and "chains sg' = chains sg" and "chains0 sg' = chains0 sg"
    and "events sg' = events sg @ snd (resolve_metadata sg) @ snd (resolve_sessionPreferences sg) @
           [CommunicatorReady,
            CommunicatorPost
              \<lparr>msg_id = uuid w,
               msg_action = EthRequestAccounts (fst (resolve_metadata sg))
                              (fst (resolve_sessionPreferences sg)),
               msg_chainId = chain_id (chain sg)\<rparr>,
            StorageWrite ''chainsInfo'', StorageWrite ''account'',
            OnAccountsUpdate [Some (hs_address (hs_account d))],
            OnChainUpdate (js_or (hs_activeChainId (hs_account d)) (chain_id (chain sg)))]"
    and "\<exists>ci. find (\<lambda>e. info_id e = chain_id (chain sg')) (hs_chainsInfo d) = Some ci \<and>
          walletClient sg' =
            map_option (\<lambda>se. \<lparr>client_address = Some (hs_address (hs_account d)),
                              client_sessionKey = sessionKey se,
                              client_sessionConfig = sessionConfig se,
                              client_contracts = contracts ci,
                              client_chain = chain sg',
                              client_transport =
                                (case map_of (transports sg) (chain_id (chain sg')) of
                                   Some t \<Rightarrow> t | None \<Rightarrow> Http)\<rparr>)
              (hs_session (hs_account d))"
proof -
  define a where "a = \<lparr>acc_address = Some (hs_address (hs_account d)),
            acc_activeChainId = js_or (hs_activeChainId (hs_account d)) (chain_id (chain sg)),
            acc_session = hs_session (hs_account d)\<rparr>"
  define evs where "evs = snd (resolve_metadata sg) @ snd (resolve_sessionPreferences sg) @
           [CommunicatorReady,
            CommunicatorPost
              \<lparr>msg_id = uuid w,
               msg_action = EthRequestAccounts (fst (resolve_metadata sg))
                              (fst (resolve_sessionPreferences sg)),
               msg_chainId = chain_id (chain sg)\<rparr>,
            StorageWrite ''chainsInfo'', StorageWrite ''account'',
            OnAccountsUpdate [Some (hs_address (hs_account d))],
            OnChainUpdate (js_or (hs_activeChainId (hs_account d)) (chain_id (chain sg)))]"
  define mid where "mid = emit evs (sg\<lparr>chainsInfo_item := hs_chainsInfo d, account_item := Some a\<rparr>)"
  have ready: "ready_outcome w = None"
    using handshake_Inr_delivered [OF hs] by simp
  have unfolded: "handshake w sg =
      and_then (createWalletClient mid) (\<lambda>_ sg5. (Inr (accounts sg5), sg5))"
    unfolding handshake_delivered [OF ready post] mid_def evs_def a_def ..
  have item: "account_item mid = Some a" by (simp add: mid_def)
  have chs: "chains mid = chains sg" "chains0 mid = chains0 sg"
    by (simp_all add: mid_def chains_def)
  obtain b where acc: "account mid = Some b" and b: "acc_address b = acc_address a"
      "acc_session b = acc_session a"
    using account_healed [OF item] by simp
  have info: "chainsInfo mid = hs_chainsInfo d" by (simp add: mid_def chainsInfo_def)
  obtain ci where ci: "find (\<lambda>e. info_id e = chain_id (chain mid)) (chainsInfo mid) = Some ci"
  proof (cases "find (\<lambda>e. info_id e = chain_id (chain mid)) (chainsInfo mid)")
    case None
    from createWalletClient_no_info [OF acc None] hs unfolded show ?thesis by simp
  next
    case (Some ci)
    then show ?thesis using that by simp
  qed
  let ?wc = "map_option (\<lambda>se. \<lparr>client_address = acc_address b,
                          client_sessionKey = sessionKey se,
                          client_sessionConfig = sessionConfig se,
                          client_contracts = contracts ci,
                          client_chain = chain mid,
                          client_transport =
                            (case map_of (transports mid) (chain_id (chain mid)) of
                               Some t \<Rightarrow> t | None \<Rightarrow> Http)\<rparr>) (acc_session b)"
  have res: "handshake w sg = (Inr (accounts mid), mid\<lparr>walletClient := ?wc\<rparr>)"
    unfolding unfolded createWalletClient_ok [OF acc ci] by simp
  then have r: "r = accounts mid" and sg': "sg' = mid\<lparr>walletClient := ?wc\<rparr>"
    using hs by simp_all
  have am: "accounts mid = [Some (hs_address (hs_account d))]"
    using acc b by (simp add: accounts_def a_def)
  show "r = [Some (hs_address (hs_account d))]" using r am by simp
  show "accounts sg' = [Some (hs_address (hs_account d))]" using sg' am by simp
  show "account_item sg' = Some
           \<lparr>acc_address = Some (hs_address (hs_account d)),
            acc_activeChainId = js_or (hs_activeChainId (hs_account d)) (chain_id (chain sg)),
            acc_session = hs_session (hs_account d)\<rparr>"
    by (simp add: sg' mid_def a_def)
  show "chainsInfo_item sg' = hs_chainsInfo d" by (simp add: sg' mid_def)
  show "chains sg' = chains sg" "chains0 sg' = chains0 sg" by (simp_all add: sg' chs)
  show "events sg' = events sg @ snd (resolve_metadata sg) @ snd (resolve_sessionPreferences sg) @
           [CommunicatorReady,
            CommunicatorPost
              \<lparr>msg_id = uuid w,
               msg_action = EthRequestAccounts (fst (resolve_metadata sg))
                              (fst (resolve_sessionPreferences sg)),
               msg_chainId = chain_id (chain sg)\<rparr>,
            StorageWrite ''chainsInfo'', StorageWrite ''account'',
            OnAccountsUpdate [Some (hs_address (hs_account d))],
            OnChainUpdate (js_or (hs_activeChainId (hs_account d)) (chain_id (chain sg)))]"
    by (simp add: sg' mid_def evs_def)
  have cm: "chain sg' = chain mid" by (simp add: sg')
  have tr: "transports mid = transports sg" by (simp add: mid_def)
  have "find (\<lambda>e. info_id e = chain_id (chain sg')) (hs_chainsInfo d) = Some ci"
    using ci by (simp add: cm info)
  moreover have "walletClient sg' =
            map_option (\<lambda>se. \<lparr>client_address = Some (hs_address (hs_account d)),
                              client_sessionKey = sessionKey se,
                              client_sessionConfig = sessionConfig se,
                              client_contracts = contracts ci,
                              client_chain = chain sg',
                              client_transport =
                                (case map_of (transports sg) (chain_id (chain sg')) of
                                   Some t \<Rightarrow> t | None \<Rightarrow> Http)\<rparr>)
              (hs_session (hs_account d))"
    by (simp add: sg' b a_def tr)
  ultimately show "\<exists>ci. find (\<lambda>e. info_id e = chain_id (chain sg')) (hs_chainsInfo d) = Some ci \<and>
          walletClient sg' =
            map_option (\<lambda>se. \<lparr>client_address = Some (hs_address (hs_account d)),
                              client_sessionKey = sessionKey se,
                              client_sessionConfig = sessionConfig se,
                              client_contracts = contracts ci,
                              client_chain = chain sg',
                              client_transport =
                                (case map_of (transports sg) (chain_id (chain sg')) of
                                   Some t \<Rightarrow> t | None \<Rightarrow> Http)\<rparr>)
              (hs_session (hs_account d))"
    by blast
qed

lemma resolve_no_storage_writes:
  "filter is_storage_write (snd (resolve_metadata sg)) = []"
  "filter is_storage_write (snd (resolve_sessionPreferences sg)) = []"
  by (simp_all add: resolve_metadata_def resolve_sessionPreferences_def
      split: sum.splits option.splits)

text \<open>
  Claim C4, as amended. For every handshake whose response is delivered and that
  resolves, the result and \<open>accounts\<close> are exactly the one-element list with the
  response's account address. The active chain is then: the configured chain whose id is
  the response's \<open>activeChainId\<close>, when one was given (other than 0) and is configured;
  the first configured chain, when one was given and matches no configured chain; and the
  chain that was active before the handshake, when none was given. The response's
  \<open>chainsInfo\<close> is persisted verbatim, and the \<open>chainsInfo\<close> slot is written before the
  \<open>account\<close> slot.
\<close>

theorem handshake_accounts_and_chain:
  assumes "handshake w sg = (Inr r, sg')" and "post_outcome w = Inr (Result d)"
  shows "r = [Some (hs_address (hs_account d))] \<and>
         accounts sg' = [Some (hs_address (hs_account d))] \<and>
         (\<forall>n c. hs_activeChainId (hs_account d) = Some n \<and> n \<noteq> 0 \<and>
                find (\<lambda>c. chain_id c = n) (chains sg) = Some c \<longrightarrow> chain sg' = c) \<and>
         (\<forall>n. hs_activeChainId (hs_account d) = Some n \<and> n \<noteq> 0 \<and>
              n \<notin> chain_id ` set (chains sg) \<longrightarrow> chain sg' = chains0 sg) \<and>
         (hs_activeChainId (hs_account d) = None \<or> hs_activeChainId (hs_account d) = Some 0 \<longrightarrow>
            chain sg' = chain sg) \<and>
         chainsInfo_item sg' = hs_chainsInfo d \<and>
         filter is_storage_write (events sg') =
           filter is_storage_write (events sg) @ [StorageWrite ''chainsInfo'', StorageWrite ''account'']"
proof -
  note st = handshake_success_state [OF assms]
  let ?k = "js_or (hs_activeChainId (hs_account d)) (chain_id (chain sg))"
  have ch: "chain sg' =
     (case find (\<lambda>c. chain_id c = ?k) (chains sg) of
        Some c \<Rightarrow> if chain_id c \<noteq> 0 then c else chains0 sg
      | None \<Rightarrow> chains0 sg)"
    using chain_of_item [OF st(3)] unfolding st(5) st(6) by simp
  have given: "\<forall>n c. hs_activeChainId (hs_account d) = Some n \<and> n \<noteq> 0 \<and>
                find (\<lambda>c. chain_id c = n) (chains sg) = Some c \<longrightarrow> chain sg' = c"
  proof (intro allI impI)
    fix n c
    assume h: "hs_activeChainId (hs_account d) = Some n \<and> n \<noteq> 0 \<and>
                find (\<lambda>c. chain_id c = n) (chains sg) = Some c"
    then have "chain_id c = n" using find_SomeD [of "\<lambda>c. chain_id c = n" "chains sg" c] by simp
    then show "chain sg' = c" using h by (simp add: ch)
  qed
  have unknown: "\<forall>n. hs_activeChainId (hs_account d) = Some n \<and> n \<noteq> 0 \<and>
              n \<notin> chain_id ` set (chains sg) \<longrightarrow> chain sg' = chains0 sg"
  proof (intro allI impI)
    fix n
    assume h: "hs_activeChainId (hs_account d) = Some n \<and> n \<noteq> 0 \<and>
              n \<notin> chain_id ` set (chains sg)"
    then have "find (\<lambda>c. chain_id c = n) (chains sg) = None"
      using find_chain_Some_iff [of n "chains sg"] by simp
    then show "chain sg' = chains0 sg" using h by (simp add: ch)
  qed
  have absent: "hs_activeChainId (hs_account d) = None \<or> hs_activeChainId (hs_account d) = Some 0 \<longrightarrow>
            chain sg' = chain sg"
  proof
    assume "hs_activeChainId (hs_account d) = None \<or> hs_activeChainId (hs_account d) = Some 0"
    then have k: "?k = chain_id (chain sg)" by auto
    have "find (\<lambda>c. chain_id c = ?k) (chains sg) = Some (chain sg)"
      unfolding k by (rule find_chain_id_chain)
    then have ch': "chain sg' = (if chain_id (chain sg) \<noteq> 0 then chain sg else chains0 sg)"
      using ch by simp
    show "chain sg' = chain sg"
    proof (cases "chain_id (chain sg) = 0")
      case True
      then have "chain_id (chains0 sg) = 0"
        using js_or_zero [of "map_option acc_activeChainId (account sg)" "chain_id (chains0 sg)"]
        by (simp add: chain_id_chain)
      then have "chain sg = chains0 sg"
        using find_chain_id_chain [of sg] find_chains0 [of sg] True by simp
      then show ?thesis using True ch' by simp
    next
      case False
      then show ?thesis using ch' by simp
    qed
  qed
  have writes: "filter is_storage_write (events sg') =
           filter is_storage_write (events sg) @ [StorageWrite ''chainsInfo'', StorageWrite ''account'']"
    by (simp add: st(7) resolve_no_storage_writes)
  from st(1,2,4) given unknown absent writes show ?thesis by blast
qed

text \<open>
  In the scenario (response: account \<open>0xA\<close> on chain 10, chain information for 1 and
  10): \<open>accounts = ["0xA"]\<close> and \<open>chain.id = 10\<close>.
\<close>

theorem handshake_accounts_and_chain_witness:
  "accounts ex_connected = [Some ''0xA''] \<and> chain ex_connected = ex_chain10 \<and>
   chainsInfo_item ex_connected = [ex_info1, ex_info10] \<and>
   filter is_storage_write (events ex_connected) = [StorageWrite ''chainsInfo'', StorageWrite ''account'']"
proof -
  have h1: "handshake (ex_world (Result ex_handshake_data)) ex_fresh = (Inr [Some ''0xA''], ex_connected)"
    by (simp add: ex_connected_eq ex_connected_state)
  have h2: "post_outcome (ex_world (Result ex_handshake_data)) = Inr (Result ex_handshake_data)"
    by (simp add: ex_world_def)
  have d: "hs_activeChainId (hs_account ex_handshake_data) = Some 10 \<and> (10::int) \<noteq> 0 \<and>
      find (\<lambda>c. chain_id c = 10) (chains ex_fresh) = Some ex_chain10"
    by (simp add: ex_handshake_data_def ex_fresh_eq chains_def ex_chain1_def ex_chain10_def)
  have e: "events ex_fresh = []" by (simp add: ex_fresh_eq)
  note t = handshake_accounts_and_chain [OF h1 h2]
  from t have "accounts ex_connected = [Some ''0xA'']"
    by (simp add: ex_handshake_data_def)
  moreover from t d have "chain ex_connected = ex_chain10" by blast
  moreover from t have "chainsInfo_item ex_connected = [ex_info1, ex_info10]"
    by (simp add: ex_handshake_data_def)
  moreover from t e have "filter is_storage_write (events ex_connected) =
      [StorageWrite ''chainsInfo'', StorageWrite ''account'']"
    by simp
  ultimately show ?thesis by simp
qed

text \<open>
  Claim C4 as stated fails when the response names a chain that is not configured. With
  the chains \<open>[{id: 1}, {id: 10}]\<close> and a response with \<open>activeChainId: 5\<close>, the handshake
  resolves with \<open>["0xA"]\<close>, the account is persisted with chain id 5, and the \<open>account\<close>
  getter falls back to the first configured chain: \<open>chain.id\<close> is 1.
\<close>

lemma ex_unconfigured_eq:
  "handshake (ex_world (Result ex_handshake_data_unconfigured)) ex_fresh =
     (Inr [Some ''0xA''],
      ex_fresh\<lparr>account_item := Some \<lparr>acc_address = Some ''0xA'', acc_activeChainId = 5,
                                      acc_session = None\<rparr>,
               chainsInfo_item := [ex_info1, ex_info10],
               events := [CommunicatorReady,
                  CommunicatorPost \<lparr>msg_id = ''uuid-1'',
                    msg_action = EthRequestAccounts \<lparr>app_name = ''dapp'', app_icon = None\<rparr> None,
                    msg_chainId = 1\<rparr>,
                  StorageWrite ''chainsInfo'', StorageWrite ''account'',
                  OnAccountsUpdate [Some ''0xA''], OnChainUpdate 5]\<rparr>)"
proof -
  have r: "ready_outcome (ex_world (Result ex_handshake_data_unconfigured)) = None"
    "post_outcome (ex_world (Result ex_handshake_data_unconfigured)) =
       Inr (Result ex_handshake_data_unconfigured)"
    "uuid (ex_world (Result ex_handshake_data_unconfigured)) = ''uuid-1''"
    by (simp_all add: ex_world_def)
  show ?thesis
    unfolding handshake_delivered [OF r(1,2)] r(3) ex_fresh_chain
    by (simp add: ex_handshake_data_unconfigured_def resolve_metadata_def
        resolve_sessionPreferences_def
        ex_fresh_eq createWalletClient_def Let_def account_def chain_def chains_def
        session_def chainsInfo_def accounts_def emit_def ex_chain1_def ex_chain10_def
        ex_info1_def ex_info10_def)
qed

theorem handshake_unconfigured_chain_counterexample:
  "post_outcome (ex_world (Result ex_handshake_data_unconfigured)) =
     Inr (Result ex_handshake_data_unconfigured) \<and>
   hs_activeChainId (hs_account ex_handshake_data_unconfigured) = Some 5 \<and>
   fst (handshake (ex_world (Result ex_handshake_data_unconfigured)) ex_fresh) = Inr [Some ''0xA''] \<and>
   chain_id (chain (snd (handshake (ex_world (Result ex_handshake_data_unconfigured)) ex_fresh))) = 1"
  by (simp add: ex_unconfigured_eq)
     (simp add: ex_world_def ex_handshake_data_unconfigured_def ex_fresh_eq chain_def account_def
        chains_def ex_chain1_def ex_chain10_def)

text \<open>
  Claim C10. In every handshake that resolves, the \<open>chainsInfo\<close> slot is written
  immediately before the \<open>account\<close> slot, and these are the only writes. The wallet
  client that the on-change callback of the \<open>account\<close> slot rebuilds is therefore built
  from the response's \<open>chainsInfo\<close>: the entry for the active chain is found in the
  response, whatever the slot held before, and the client carries that entry's
  contracts.
\<close>

theorem handshake_rebuild_reads_new_chainsInfo:
  assumes "handshake w sg = (Inr r, sg')" and "post_outcome w = Inr (Result d)"
  shows "(\<exists>before after.
            events sg' = events sg @ before @
              [StorageWrite ''chainsInfo'', StorageWrite ''account''] @ after \<and>
            filter is_storage_write before = [] \<and> filter is_storage_write after = []) \<and>
         (\<exists>ci. find (\<lambda>e. info_id e = chain_id (chain sg')) (hs_chainsInfo d) = Some ci \<and>
            walletClient sg' =
              map_option (\<lambda>se. \<lparr>client_address = Some (hs_address (hs_account d)),
                                client_sessionKey = sessionKey se,
                                client_sessionConfig = sessionConfig se,
                                client_contracts = contracts ci,
                                client_chain = chain sg',
                                client_transport =
                                  (case map_of (transports sg) (chain_id (chain sg')) of
                                     Some t \<Rightarrow> t | None \<Rightarrow> Http)\<rparr>)
                (hs_session (hs_account d)))"
proof -
  note st = handshake_success_state [OF assms]
  let ?before = "snd (resolve_metadata sg) @ snd (resolve_sessionPreferences sg) @
           [CommunicatorReady,
            CommunicatorPost
              \<lparr>msg_id = uuid w,
               msg_action = EthRequestAccounts (fst (resolve_metadata sg))
                              (fst (resolve_sessionPreferences sg)),
               msg_chainId = chain_id (chain sg)\<rparr>]"
  let ?after = "[OnAccountsUpdate [Some (hs_address (hs_account d))],
            OnChainUpdate (js_or (hs_activeChainId (hs_account d)) (chain_id (chain sg)))]"
  have "events sg' = events sg @ ?before @
              [StorageWrite ''chainsInfo'', StorageWrite ''account''] @ ?after"
    by (simp add: st(7))
  moreover have "filter is_storage_write ?before = []"
    by (simp add: resolve_no_storage_writes)
  moreover have "filter is_storage_write ?after = []" by simp
  ultimately have "\<exists>before after.
            events sg' = events sg @ before @
              [StorageWrite ''chainsInfo'', StorageWrite ''account''] @ after \<and>
            filter is_storage_write before = [] \<and> filter is_storage_write after = []"
    by blast
  with st(8) show ?thesis by blast
qed

text \<open>
  A Signer that found stale chain information for chain 10 in storage: after the
  scenario's handshake its client has the contracts of the response.
\<close>

lemma ex_stale_cache_eq:
  "ex_stale_cache = ex_fresh\<lparr>chainsInfo_item :=
      [\<lparr>info_id = 10, contracts = ''stale'', capabilities = ''stale''\<rparr>]\<rparr>"
  by (simp add: ex_stale_cache_def ex_fresh_def new_signer_def ex_empty_storage_def)

lemma ex_stale_cache_handshake:
  "handshake (ex_world (Result ex_handshake_data)) ex_stale_cache =
     (Inr [Some ''0xA''], ex_connected)"
proof -
  have r: "ready_outcome (ex_world (Result ex_handshake_data)) = None"
    "post_outcome (ex_world (Result ex_handshake_data)) = Inr (Result ex_handshake_data)"
    "uuid (ex_world (Result ex_handshake_data)) = ''uuid-1''"
    by (simp_all add: ex_world_def)
  have c: "chain ex_stale_cache = ex_chain1"
    by (simp add: ex_stale_cache_eq ex_fresh_eq chain_def account_def chains_def)
  show ?thesis
    unfolding handshake_delivered [OF r(1,2)] r(3) c ex_connected_state
    by (simp add: ex_handshake_data_def resolve_metadata_def resolve_sessionPreferences_def
        ex_stale_cache_eq
        ex_fresh_eq createWalletClient_def Let_def account_def chain_def chains_def
        session_def chainsInfo_def accounts_def emit_def ex_chain1_def ex_chain10_def
        ex_info1_def ex_info10_def ex_session_def ex_client_def)
qed

theorem handshake_rebuild_reads_new_chainsInfo_witness:
  "chainsInfo ex_stale_cache = [\<lparr>info_id = 10, contracts = ''stale'', capabilities = ''stale''\<rparr>] \<and>
   map_option client_contracts
     (walletClient (snd (handshake (ex_world (Result ex_handshake_data)) ex_stale_cache))) =
     Some ''contracts-10'' \<and>
   filter is_storage_write
     (events (snd (handshake (ex_world (Result ex_handshake_data)) ex_stale_cache))) =
     [StorageWrite ''chainsInfo'', StorageWrite ''account'']"
proof -
  have h2: "post_outcome (ex_world (Result ex_handshake_data)) = Inr (Result ex_handshake_data)"
    by (simp add: ex_world_def)
  note t = handshake_rebuild_reads_new_chainsInfo [OF ex_stale_cache_handshake h2]
  have e: "events ex_stale_cache = []" by (simp add: ex_stale_cache_eq ex_fresh_eq)
  from t obtain ci where
    ci: "find (\<lambda>e. info_id e = chain_id (chain ex_connected)) (hs_chainsInfo ex_handshake_data) = Some ci"
    and wc: "map_option client_contracts (walletClient ex_connected) =
       map_option (\<lambda>se. contracts ci) (hs_session (hs_account ex_handshake_data))"
    by (auto simp: option.map_comp comp_def)
  have "info_id ex_info10 = 10" by (simp add: ex_info10_def)
  then have "ci = ex_info10"
    using ci by (simp add: ex_connected_getters ex_handshake_data_def ex_chain10_def ex_info1_def)
  then have 1: "map_option client_contracts (walletClient ex_connected) = Some ''contracts-10''"
    using wc by (simp add: ex_handshake_data_def ex_info10_def)
  from t obtain before after where
    "events ex_connected = events ex_stale_cache @ before @
              [StorageWrite ''chainsInfo'', StorageWrite ''account''] @ after"
    "filter is_storage_write before = []" "filter is_storage_write after = []"
    by auto
  then have 2: "filter is_storage_write (events ex_connected) =
      [StorageWrite ''chainsInfo'', StorageWrite ''account'']"
    by (simp add: e)
  have 3: "chainsInfo ex_stale_cache =
      [\<lparr>info_id = 10, contracts = ''stale'', capabilities = ''stale''\<rparr>]"
    by (simp add: ex_stale_cache_eq chainsInfo_def)
  from 1 2 3 show ?thesis by (simp add: ex_stale_cache_handshake)
qed

end
